theory Spec2Isabelle
  imports Complex_Main "HOL-Library.Sublist"
begin

section \<open>Python values: errors, strings, tensors\<close>

text \<open>
  The module under verification is \<^verbatim>\<open>src/modules/model_bk.py\<close>: a CLIP vision encoder
  (ModifiedResNet or VisionTransformer) with adapters, a cls aggregation path and a
  temporal correlation block, and \<^verbatim>\<open>build_model\<close>, which infers the hyperparameters from
  a state dictionary. Every exception of Python is a value \<open>Inl e\<close> of a sum type;
  \<open>Unmodelled\<close> marks a use of torch that the model does not cover (a tensor rank that
  no call of the source produces).
\<close>

datatype py_error =
    KeyError | IndexError | TypeError | AssertionError | ZeroDivisionError
  | RuntimeError | AttributeError | UnboundLocalError | ValueError | Unmodelled

definition seq :: "py_error + 'a \<Rightarrow> ('a \<Rightarrow> py_error + 'b) \<Rightarrow> py_error + 'b" where
  "seq m f = (case m of Inl e \<Rightarrow> Inl e | Inr v \<Rightarrow> f v)"

fun mapM :: "('a \<Rightarrow> py_error + 'b) \<Rightarrow> 'a list \<Rightarrow> py_error + 'b list" where
  "mapM f [] = Inr []"
| "mapM f (x # xs) = seq (f x) (\<lambda>y. seq (mapM f xs) (\<lambda>ys. Inr (y # ys)))"

text \<open>
  Subscripting a list or a shape, \<^verbatim>\<open>xs[i]\<close>: index \<open>-k\<close> is the \<open>k\<close>-th entry from the
  right, and IndexError is raised outside \<open>-len(xs) .. len(xs) - 1\<close>.
\<close>

definition py_index :: "'a list \<Rightarrow> int \<Rightarrow> py_error + 'a" where
  "py_index xs i =
     (if 0 \<le> i \<and> i < int (length xs) then Inr (xs ! nat i)
      else if i < 0 \<and> - i \<le> int (length xs) then Inr (xs ! nat (int (length xs) + i))
      else Inl IndexError)"

subsection \<open>Strings\<close>

definition startswith :: "string \<Rightarrow> string \<Rightarrow> bool" where
  "startswith k p = prefix p k"

definition endswith :: "string \<Rightarrow> string \<Rightarrow> bool" where
  "endswith k s = suffix s k"

text \<open>\<^verbatim>\<open>s in k\<close> on strings: \<open>s\<close> occurs in \<open>k\<close> as a contiguous run.\<close>

definition contains :: "string \<Rightarrow> string \<Rightarrow> bool" where
  "contains k s = sublist s k"

text \<open>\<^verbatim>\<open>k.split(c)\<close> for a one-character separator.\<close>

fun str_split :: "char \<Rightarrow> string \<Rightarrow> string list" where
  "str_split c [] = [[]]"
| "str_split c (x # xs) =
     (if x = c then [] # str_split c xs
      else (case str_split c xs of [] \<Rightarrow> [[x]] | w # ws \<Rightarrow> (x # w) # ws))"

text \<open>\<^verbatim>\<open>str(n)\<close> for a natural number, as \<^verbatim>\<open>nn.Sequential\<close> names its children.\<close>

function str_nat :: "nat \<Rightarrow> string" where
  "str_nat n =
     (if n < 10 then [''0123456789'' ! n]
      else str_nat (n div 10) @ [''0123456789'' ! (n mod 10)])"
  by pat_completeness auto
termination
  by (relation "measure id") auto

declare str_nat.simps [simp del]

text \<open>The dotted name \<^verbatim>\<open>a.b.c\<close> of a path of attribute names; the root's name is empty.\<close>

fun dotted :: "string list \<Rightarrow> string" where
  "dotted [] = []"
| "dotted [n] = n"
| "dotted (n # m # p) = n @ ''.'' @ dotted (m # p)"

subsection \<open>Tensors\<close>

text \<open>
  A tensor is its shape and its entry at each index (one coordinate per dimension).
  \<open>mk\<close> builds the tensor of a shape from an entry function and maps every index
  outside the shape to 0, so that two tensors with the same shape and the same entries
  are equal. Entries are real numbers: rounding, infinities and NaN of the floating-point
  types are not modelled.
\<close>

record tensor =
  shape :: "nat list"
  entry :: "nat list \<Rightarrow> real"

definition valid_index :: "nat list \<Rightarrow> nat list \<Rightarrow> bool" where
  "valid_index s idx = list_all2 (<) idx s"

definition mk :: "nat list \<Rightarrow> (nat list \<Rightarrow> real) \<Rightarrow> tensor" where
  "mk s f = \<lparr>shape = s, entry = (\<lambda>idx. if valid_index s idx then f idx else 0)\<rparr>"

definition zeros :: "nat list \<Rightarrow> tensor" where
  "zeros s = mk s (\<lambda>_. 0)"

definition ones :: "nat list \<Rightarrow> tensor" where
  "ones s = mk s (\<lambda>_. 1)"

definition numel :: "nat list \<Rightarrow> nat" where
  "numel s = prod_list s"

section \<open>Modules and their construction\<close>

text \<open>
  A \<^verbatim>\<open>nn.Module\<close> object is a tree: its class, its plain attributes, its own parameters
  in registration order and its child modules in registration order. A parameter carries
  its tensor and its \<^verbatim>\<open>requires_grad\<close> flag. Buffers (the running statistics of
  BatchNorm2d) are not parameters and are left out.
\<close>

datatype kind =
    Conv2d | BatchNorm2d | ReLU | AvgPool2d | Identity | Sequential | Linear
  | NonDynamicallyQuantizableLinear | LayerNorm | QuickGELU | MultiheadAttention
  | Unfold | Bottleneck | AttentionPool2d | ModifiedResNet | ResidualAttentionBlock
  | Adapter | AggregationBlock | UnfoldTemporalWindows | Correlation_Module
  | TemporalAggregationBlock | Transformer | VisionTransformer | CLIP

record param =
  data :: tensor
  requires_grad :: bool

datatype attr = Bool_attr bool | Int_attr nat | None_attr

datatype module =
  Module (kind: kind) (attrs: "(string \<times> attr) list")
         (params: "(string \<times> param) list") (children: "(string \<times> module) list")

text \<open>
  The values that \<^verbatim>\<open>torch.randn\<close>, \<^verbatim>\<open>torch.rand\<close> and the default initialisers of
  torch's layers draw are an input of the construction: \<open>rng p idx\<close> is the value drawn
  for entry \<open>idx\<close> of the parameter with path \<open>p\<close>. A child is built with the
  generator restricted to its own paths.
\<close>

type_synonym rng = "string list \<Rightarrow> nat list \<Rightarrow> real"

definition sub :: "rng \<Rightarrow> string \<Rightarrow> rng" where
  "sub g name = (\<lambda>p. g (name # p))"

text \<open>\<^verbatim>\<open>nn.Parameter(t)\<close>: \<^verbatim>\<open>requires_grad\<close> defaults to True.\<close>

definition Parameter :: "tensor \<Rightarrow> param" where
  "Parameter t = \<lparr>data = t, requires_grad = True\<rparr>"

definition drawn :: "rng \<Rightarrow> string \<Rightarrow> nat list \<Rightarrow> param" where
  "drawn g name s = Parameter (mk s (g [name]))"

subsection \<open>Layers of torch\<close>

definition Linear_init :: "rng \<Rightarrow> nat \<Rightarrow> nat \<Rightarrow> module" where
  "Linear_init g in_features out_features =
     Module Linear
       [(''in_features'', Int_attr in_features), (''out_features'', Int_attr out_features)]
       [(''weight'', drawn g ''weight'' [out_features, in_features]),
        (''bias'', drawn g ''bias'' [out_features])] []"

text \<open>Every \<^verbatim>\<open>nn.Conv2d\<close> of the source is built with \<^verbatim>\<open>bias=False\<close>.\<close>

definition Conv2d_init :: "rng \<Rightarrow> nat \<Rightarrow> nat \<Rightarrow> nat \<Rightarrow> nat \<Rightarrow> nat \<Rightarrow> module" where
  "Conv2d_init g in_channels out_channels kernel_size stride padding =
     Module Conv2d
       [(''kernel_size'', Int_attr kernel_size), (''stride'', Int_attr stride),
        (''padding'', Int_attr padding), (''bias'', None_attr)]
       [(''weight'', drawn g ''weight'' [out_channels, in_channels, kernel_size, kernel_size])] []"

definition BatchNorm2d_init :: "nat \<Rightarrow> module" where
  "BatchNorm2d_init n =
     Module BatchNorm2d [(''num_features'', Int_attr n)]
       [(''weight'', Parameter (ones [n])), (''bias'', Parameter (zeros [n]))] []"

definition LayerNorm_init :: "nat \<Rightarrow> module" where
  "LayerNorm_init d =
     Module LayerNorm [(''normalized_shape'', Int_attr d)]
       [(''weight'', Parameter (ones [d])), (''bias'', Parameter (zeros [d]))] []"

definition plain :: "kind \<Rightarrow> module" where
  "plain k = Module k [] [] []"

definition AvgPool2d_init :: "nat \<Rightarrow> module" where
  "AvgPool2d_init k = Module AvgPool2d [(''kernel_size'', Int_attr k)] [] []"

text \<open>
  \<^verbatim>\<open>nn.MultiheadAttention(embed_dim, num_heads)\<close> computes
  \<^verbatim>\<open>head_dim = embed_dim // num_heads\<close> and asserts that the heads divide the width.
  Its output projection is of a subclass of \<^verbatim>\<open>nn.Linear\<close>.
\<close>

definition MultiheadAttention_init :: "rng \<Rightarrow> nat \<Rightarrow> nat \<Rightarrow> py_error + module" where
  "MultiheadAttention_init g embed_dim num_heads =
     (if num_heads = 0 then Inl ZeroDivisionError
      else if embed_dim mod num_heads \<noteq> 0 then Inl AssertionError
      else Inr (Module MultiheadAttention
        [(''embed_dim'', Int_attr embed_dim), (''num_heads'', Int_attr num_heads),
         (''head_dim'', Int_attr (embed_dim div num_heads))]
        [(''in_proj_weight'', drawn g ''in_proj_weight'' [3 * embed_dim, embed_dim]),
         (''in_proj_bias'', Parameter (zeros [3 * embed_dim]))]
        [(''out_proj'', Module NonDynamicallyQuantizableLinear
            [(''in_features'', Int_attr embed_dim), (''out_features'', Int_attr embed_dim)]
            [(''weight'', drawn (sub g ''out_proj'') ''weight'' [embed_dim, embed_dim]),
             (''bias'', Parameter (zeros [embed_dim]))] [])]))"

text \<open>\<^verbatim>\<open>nn.Sequential(*ms)\<close> names its children \<^verbatim>\<open>"0"\<close>, \<^verbatim>\<open>"1"\<close>, ...\<close>

definition Sequential_init :: "(string \<times> module) list \<Rightarrow> module" where
  "Sequential_init cs = Module Sequential [] [] cs"

definition numbered :: "module list \<Rightarrow> (string \<times> module) list" where
  "numbered ms = zip (map str_nat [0..<length ms]) ms"

text \<open>\<^verbatim>\<open>isinstance(m, nn.Linear)\<close>.\<close>

definition isinstance_Linear :: "module \<Rightarrow> bool" where
  "isinstance_Linear m = (kind m = Linear \<or> kind m = NonDynamicallyQuantizableLinear)"

subsection \<open>The ResNet backbone\<close>

definition Bottleneck_init :: "rng \<Rightarrow> nat \<Rightarrow> nat \<Rightarrow> nat \<Rightarrow> module" where
  "Bottleneck_init g inplanes planes stride =
     Module Bottleneck
       ((''stride'', Int_attr stride) #
        (if stride > 1 \<or> inplanes \<noteq> planes * 4 then [] else [(''downsample'', None_attr)]))
       []
       ([(''conv1'', Conv2d_init (sub g ''conv1'') inplanes planes 1 1 0),
         (''bn1'', BatchNorm2d_init planes),
         (''relu1'', plain ReLU),
         (''conv2'', Conv2d_init (sub g ''conv2'') planes planes 3 1 1),
         (''bn2'', BatchNorm2d_init planes),
         (''relu2'', plain ReLU),
         (''avgpool'', if stride > 1 then AvgPool2d_init stride else plain Identity),
         (''conv3'', Conv2d_init (sub g ''conv3'') planes (planes * 4) 1 1 0),
         (''bn3'', BatchNorm2d_init (planes * 4)),
         (''relu3'', plain ReLU)] @
        (if stride > 1 \<or> inplanes \<noteq> planes * 4
         then [(''downsample'', Sequential_init
                 [(''-1'', AvgPool2d_init stride),
                  (''0'', Conv2d_init (sub (sub g ''downsample'') ''0'') inplanes (planes * 4) 1 1 0),
                  (''1'', BatchNorm2d_init (planes * 4))])]
         else []))"

text \<open>\<^verbatim>\<open>output_dim or embed_dim\<close>: 0 is falsy.\<close>

definition AttentionPool2d_init :: "rng \<Rightarrow> nat \<Rightarrow> nat \<Rightarrow> nat \<Rightarrow> nat \<Rightarrow> module" where
  "AttentionPool2d_init g spacial_dim embed_dim num_heads output_dim =
     Module AttentionPool2d [(''num_heads'', Int_attr num_heads)]
       [(''positional_embedding'',
           drawn g ''positional_embedding'' [spacial_dim ^ 2 + 1, embed_dim])]
       [(''k_proj'', Linear_init (sub g ''k_proj'') embed_dim embed_dim),
        (''q_proj'', Linear_init (sub g ''q_proj'') embed_dim embed_dim),
        (''v_proj'', Linear_init (sub g ''v_proj'') embed_dim embed_dim),
        (''c_proj'', Linear_init (sub g ''c_proj'') embed_dim
                       (if output_dim = 0 then embed_dim else output_dim))]"

text \<open>
  \<^verbatim>\<open>_make_layer(planes, blocks, stride)\<close> with \<^verbatim>\<open>self._inplanes = inplanes\<close> on entry; on
  exit \<^verbatim>\<open>self._inplanes\<close> is \<^verbatim>\<open>planes * 4\<close>. The first block is always built.
\<close>

definition make_layer :: "rng \<Rightarrow> nat \<Rightarrow> nat \<Rightarrow> nat \<Rightarrow> nat \<Rightarrow> module" where
  "make_layer g inplanes planes blocks stride =
     Sequential_init (numbered
       (Bottleneck_init (sub g ''0'') inplanes planes stride #
        map (\<lambda>i. Bottleneck_init (sub g (str_nat i)) (planes * 4) planes 1) [1..<blocks]))"

definition ModifiedResNet_init ::
  "rng \<Rightarrow> nat list \<Rightarrow> nat \<Rightarrow> nat \<Rightarrow> nat \<Rightarrow> nat \<Rightarrow> py_error + module" where
  "ModifiedResNet_init g layers output_dim heads input_resolution width =
     seq (py_index layers 0) (\<lambda>l0.
     seq (py_index layers 1) (\<lambda>l1.
     seq (py_index layers 2) (\<lambda>l2.
     seq (py_index layers 3) (\<lambda>l3.
     Inr (Module ModifiedResNet
       [(''output_dim'', Int_attr output_dim), (''input_resolution'', Int_attr input_resolution),
        (''_inplanes'', Int_attr (width * 8 * 4))]
       []
       [(''conv1'', Conv2d_init (sub g ''conv1'') 3 (width div 2) 3 2 1),
        (''bn1'', BatchNorm2d_init (width div 2)),
        (''relu1'', plain ReLU),
        (''conv2'', Conv2d_init (sub g ''conv2'') (width div 2) (width div 2) 3 1 1),
        (''bn2'', BatchNorm2d_init (width div 2)),
        (''relu2'', plain ReLU),
        (''conv3'', Conv2d_init (sub g ''conv3'') (width div 2) width 3 1 1),
        (''bn3'', BatchNorm2d_init width),
        (''relu3'', plain ReLU),
        (''avgpool'', AvgPool2d_init 2),
        (''layer1'', make_layer (sub g ''layer1'') width width l0 1),
        (''layer2'', make_layer (sub g ''layer2'') (width * 4) (width * 2) l1 2),
        (''layer3'', make_layer (sub g ''layer3'') (width * 2 * 4) (width * 4) l2 2),
        (''layer4'', make_layer (sub g ''layer4'') (width * 4 * 4) (width * 8) l3 2),
        (''attnpool'', AttentionPool2d_init (sub g ''attnpool'') (input_resolution div 32)
                         (width * 32) heads output_dim)])))))"

subsection \<open>The transformer backbone\<close>

text \<open>\<^verbatim>\<open>int(d_model * r)\<close> with \<^verbatim>\<open>r = 1/4\<close> is \<open>d_model div 4\<close>.\<close>

definition Adapter_init :: "rng \<Rightarrow> nat \<Rightarrow> bool \<Rightarrow> module" where
  "Adapter_init g d_model skip_connect =
     Module Adapter [(''skip_connect'', Bool_attr skip_connect)] []
       [(''mlp'', Sequential_init
          [(''c_in'', Linear_init (sub (sub g ''mlp'') ''c_in'') d_model (d_model div 4)),
           (''gelu'', plain QuickGELU),
           (''c_out'', Linear_init (sub (sub g ''mlp'') ''c_out'') (d_model div 4) d_model)])]"

text \<open>
  \<^verbatim>\<open>scale = d_model ** -0.5\<close> raises ZeroDivisionError for \<^verbatim>\<open>d_model = 0\<close>. The block's
  \<^verbatim>\<open>attn_mask\<close> is None wherever the source builds one.
\<close>

definition ResidualAttentionBlock_init :: "rng \<Rightarrow> nat \<Rightarrow> nat \<Rightarrow> bool \<Rightarrow> py_error + module" where
  "ResidualAttentionBlock_init g d_model n_head checkpointing =
     seq (MultiheadAttention_init (sub g ''attn'') d_model n_head) (\<lambda>attn.
     if d_model = 0 then Inl ZeroDivisionError
     else Inr (Module ResidualAttentionBlock
       [(''attn_mask'', None_attr), (''prefix_length'', Int_attr 8),
        (''checkpointing'', Bool_attr checkpointing)]
       [(''prefix_embedding_k'', drawn g ''prefix_embedding_k'' [8, 1, d_model]),
        (''prefix_embedding_v'', drawn g ''prefix_embedding_v'' [8, 1, d_model])]
       [(''attn'', attn),
        (''ln_1'', LayerNorm_init d_model),
        (''mlp'', Sequential_init
           [(''c_fc'', Linear_init (sub (sub g ''mlp'') ''c_fc'') d_model (d_model * 4)),
            (''gelu'', plain QuickGELU),
            (''c_proj'', Linear_init (sub (sub g ''mlp'') ''c_proj'') (d_model * 4) d_model)]),
        (''ln_2'', LayerNorm_init d_model),
        (''S_Adapter'', Adapter_init (sub g ''S_Adapter'') d_model False),
        (''MLP_Adapter'', Adapter_init (sub g ''MLP_Adapter'') d_model False)]))"

definition AggregationBlock_init :: "rng \<Rightarrow> nat \<Rightarrow> nat \<Rightarrow> py_error + module" where
  "AggregationBlock_init g d_model n_head =
     seq (MultiheadAttention_init (sub g ''attn'') d_model n_head) (\<lambda>attn.
     Inr (Module AggregationBlock [(''attn_mask'', None_attr)] []
       [(''attn'', attn),
        (''ln_1'', LayerNorm_init d_model),
        (''mlp'', Sequential_init
           [(''c_fc'', Linear_init (sub (sub g ''mlp'') ''c_fc'') d_model (d_model * 1)),
            (''gelu'', plain QuickGELU),
            (''c_proj'', Linear_init (sub (sub g ''mlp'') ''c_proj'') (d_model * 1) d_model)]),
        (''ln_2'', LayerNorm_init d_model)]))"

definition UnfoldTemporalWindows_init :: "nat \<Rightarrow> nat \<Rightarrow> nat \<Rightarrow> module" where
  "UnfoldTemporalWindows_init window_size window_stride window_dilation =
     Module UnfoldTemporalWindows
       [(''window_size'', Int_attr window_size), (''window_stride'', Int_attr window_stride),
        (''window_dilation'', Int_attr window_dilation),
        (''padding'', Int_attr ((window_size + (window_size - 1) * (window_dilation - 1) - 1) div 2))]
       []
       [(''unfold'', Module Unfold
          [(''kernel_size'', Int_attr window_size), (''dilation'', Int_attr window_dilation),
           (''stride'', Int_attr window_stride),
           (''padding'', Int_attr ((window_size + (window_size - 1) * (window_dilation - 1) - 1) div 2))]
          [] [])]"

definition TemporalAggregationBlock_init :: "nat \<Rightarrow> nat \<Rightarrow> module" where
  "TemporalAggregationBlock_init d_model n_head =
     Module TemporalAggregationBlock [(''attn_mask'', None_attr)] []
       [(''attn'', plain Correlation_Module),
        (''ln_1'', LayerNorm_init d_model),
        (''upfold'', UnfoldTemporalWindows_init 5 1 1)]"

text \<open>Every residual block is built with \<^verbatim>\<open>checkpointing = (i >= 0)\<close>, which is True.\<close>

definition Transformer_init :: "rng \<Rightarrow> nat \<Rightarrow> nat \<Rightarrow> nat \<Rightarrow> py_error + module" where
  "Transformer_init g width layers heads =
     seq (mapM (\<lambda>i. ResidualAttentionBlock_init (sub (sub g ''resblocks'') (str_nat i))
                       width heads True) [0..<layers]) (\<lambda>resblocks.
     seq (mapM (\<lambda>i. AggregationBlock_init (sub (sub g ''aggblocks'') (str_nat i))
                       width heads) [0..<layers]) (\<lambda>aggblocks.
     Inr (Module Transformer
       [(''width'', Int_attr width), (''layers'', Int_attr layers)]
       [(''query'', drawn g ''query'' [1, 1, width]),
        (''temporal_ada_weight'', Parameter (zeros [1]))]
       [(''resblocks'', Sequential_init (numbered resblocks)),
        (''aggblocks'', Sequential_init (numbered aggblocks)),
        (''taggblocks'', TemporalAggregationBlock_init width heads)])))"

subsection \<open>Named modules and in-place initialisation\<close>

text \<open>
  \<^verbatim>\<open>named_modules()\<close> lists the module itself (under the empty name) and every
  descendant in pre-order; here a module is listed with its path, whose dotted form is
  the name Python yields. A path also stands for the reference to the module object:
  \<open>update_at p f\<close> is an in-place change \<open>f\<close> of the module at path \<open>p\<close>.
\<close>

fun named_modules :: "module \<Rightarrow> (string list \<times> module) list" where
  "named_modules (Module k a ps cs) =
     ([], Module k a ps cs) #
     concat (map (\<lambda>(n, c). map (\<lambda>(p, m). (n # p, m)) (named_modules c)) cs)"

fun node_at :: "string list \<Rightarrow> module \<Rightarrow> module option" where
  "node_at [] m = Some m"
| "node_at (n # p) m = (case map_of (children m) n of None \<Rightarrow> None | Some c \<Rightarrow> node_at p c)"

fun update_child :: "string \<Rightarrow> (module \<Rightarrow> module) \<Rightarrow> (string \<times> module) list \<Rightarrow> (string \<times> module) list" where
  "update_child n f [] = []"
| "update_child n f ((n', c) # cs) =
     (if n' = n then (n', f c) # cs else (n', c) # update_child n f cs)"

fun update_at :: "string list \<Rightarrow> (module \<Rightarrow> module) \<Rightarrow> module \<Rightarrow> module" where
  "update_at [] f m = f m"
| "update_at (n # p) f m =
     Module (kind m) (attrs m) (params m) (update_child n (update_at p f) (children m))"

text \<open>\<^verbatim>\<open>nn.init.constant_(m.<name>, v)\<close>: every entry becomes \<open>v\<close>; shape and flag stay.\<close>

definition init_constant :: "string \<Rightarrow> real \<Rightarrow> module \<Rightarrow> module" where
  "init_constant name v m =
     Module (kind m) (attrs m)
       (map (\<lambda>(n, p). if n = name then (n, p\<lparr>data := mk (shape (data p)) (\<lambda>_. v)\<rparr>) else (n, p))
            (params m))
       (children m)"

text \<open>\<^verbatim>\<open>nn.init.normal_(m.<name>, std)\<close>: every entry is drawn anew.\<close>

definition init_normal :: "rng \<Rightarrow> string \<Rightarrow> module \<Rightarrow> module" where
  "init_normal g name m =
     Module (kind m) (attrs m)
       (map (\<lambda>(n, p). if n = name then (n, p\<lparr>data := mk (shape (data p)) (g [name])\<rparr>) else (n, p))
            (params m))
       (children m)"

text \<open>
  The two loops that close \<^verbatim>\<open>VisionTransformer.__init__\<close>, for \<open>tag\<close> \<^verbatim>\<open>'S_Adapter'\<close> and
  \<^verbatim>\<open>'MLP_Adapter'\<close>: over \<^verbatim>\<open>self.transformer.named_modules()\<close>, and for each module whose
  name contains the tag over its own \<^verbatim>\<open>named_modules()\<close>; a Linear whose name contains
  \<^verbatim>\<open>'c_out'\<close> gets weight and bias 0.
\<close>

definition zero_linear :: "module \<Rightarrow> module" where
  "zero_linear l = init_constant ''bias'' 0 (init_constant ''weight'' 0 l)"

definition zero_c_out :: "string list \<Rightarrow> module \<Rightarrow> module \<Rightarrow> module" where
  "zero_c_out p m self =
     fold (\<lambda>(p2, m2) s.
             if contains (dotted p2) ''c_out'' \<and> isinstance_Linear m2
             then update_at (''transformer'' # p @ p2) zero_linear s
             else s)
          (named_modules m) self"

definition initialize_adapters :: "string \<Rightarrow> module \<Rightarrow> module" where
  "initialize_adapters tag self =
     (case map_of (children self) ''transformer'' of
        None \<Rightarrow> self
      | Some transformer \<Rightarrow>
          fold (\<lambda>(p, m) s. if contains (dotted p) tag then zero_c_out p m s else s)
               (named_modules transformer) self)"

text \<open>
  \<^verbatim>\<open>input_resolution // patch_size\<close> raises ZeroDivisionError for a zero patch size, and
  \<^verbatim>\<open>width ** -0.5\<close> for a zero width.
\<close>

definition VisionTransformer_init ::
  "rng \<Rightarrow> nat \<Rightarrow> nat \<Rightarrow> nat \<Rightarrow> nat \<Rightarrow> nat \<Rightarrow> nat \<Rightarrow> py_error + module" where
  "VisionTransformer_init g input_resolution patch_size width layers heads output_dim =
     (if width = 0 \<or> patch_size = 0 then Inl ZeroDivisionError
      else seq (Transformer_init (sub g ''transformer'') width layers heads) (\<lambda>transformer.
        Inr (initialize_adapters ''MLP_Adapter'' (initialize_adapters ''S_Adapter''
          (Module VisionTransformer
            [(''input_resolution'', Int_attr input_resolution), (''output_dim'', Int_attr output_dim)]
            [(''class_embedding'', drawn g ''class_embedding'' [width]),
             (''positional_embedding'',
                drawn g ''positional_embedding'' [(input_resolution div patch_size) ^ 2 + 1, width]),
             (''proj'', drawn g ''proj'' [width, output_dim]),
             (''ada_weight'', Parameter (mk [2] (\<lambda>_. 1 / 2)))]
            [(''conv1'', Conv2d_init (sub g ''conv1'') 3 width patch_size patch_size 0),
             (''ln_pre'', LayerNorm_init width),
             (''transformer'', transformer),
             (''ln_post'', LayerNorm_init width),
             (''ln_post_cls'', LayerNorm_init width)])))))"

subsection \<open>CLIP\<close>

text \<open>
  \<^verbatim>\<open>vision_layers\<close> is a tuple of four block counts (ResNet) or an int (transformer);
  \<^verbatim>\<open>vision_patch_size\<close> is None for the ResNet.
\<close>

datatype vision_layers = Layers_int nat | Layers_tuple "nat list"

text \<open>
  \<^verbatim>\<open>CLIP.initialize_parameters\<close>, which changes a ResNet only: the four projections of
  the attention pool are drawn anew and every parameter of \<^verbatim>\<open>layer1\<close>..\<^verbatim>\<open>layer4\<close> whose
  name ends with \<^verbatim>\<open>bn3.weight\<close> is set to 0.
\<close>

definition zero_bn3 :: "string \<Rightarrow> module \<Rightarrow> module" where
  "zero_bn3 layer visual =
     (case map_of (children visual) layer of
        None \<Rightarrow> visual
      | Some resnet_block \<Rightarrow>
          fold (\<lambda>(p, m) s.
                  fold (\<lambda>(n, _) s. if endswith (dotted (p @ [n])) ''bn3.weight''
                                    then update_at (layer # p) (init_constant n 0) s else s)
                       (params m) s)
               (named_modules resnet_block) visual)"

definition initialize_parameters :: "rng \<Rightarrow> module \<Rightarrow> module" where
  "initialize_parameters g visual =
     (if kind visual = ModifiedResNet then
        fold zero_bn3 [''layer1'', ''layer2'', ''layer3'', ''layer4'']
          (fold (\<lambda>n. update_at [''attnpool'', n] (init_normal (sub (sub g ''attnpool'') n) ''weight''))
                [''q_proj'', ''k_proj'', ''v_proj'', ''c_proj''] visual)
      else visual)"

definition CLIP_init ::
  "rng \<Rightarrow> nat \<Rightarrow> nat \<Rightarrow> vision_layers \<Rightarrow> nat \<Rightarrow> nat option \<Rightarrow> py_error + module" where
  "CLIP_init g embed_dim image_resolution vision_layers vision_width vision_patch_size =
     seq (case vision_layers of
            Layers_tuple layers \<Rightarrow>
              ModifiedResNet_init (sub g ''visual'') layers embed_dim (vision_width * 32 div 64)
                image_resolution vision_width
          | Layers_int layers \<Rightarrow>
              (case vision_patch_size of
                 None \<Rightarrow> Inl TypeError
               | Some patch_size \<Rightarrow>
                   VisionTransformer_init (sub g ''visual'') image_resolution patch_size vision_width
                     layers (vision_width div 64) embed_dim))
         (\<lambda>visual. Inr (Module CLIP [] []
            [(''visual'', initialize_parameters (sub g ''visual'') visual)]))"

section \<open>build_model\<close>

text \<open>
  A state dictionary maps parameter names to tensors and keeps insertion order: an
  association list. Only the shapes of its tensors are read.
\<close>

type_synonym state_dict = "(string \<times> tensor) list"

definition has_key :: "state_dict \<Rightarrow> string \<Rightarrow> bool" where
  "has_key sd k = (k \<in> set (map fst sd))"

definition getitem :: "state_dict \<Rightarrow> string \<Rightarrow> py_error + tensor" where
  "getitem sd k = (case map_of sd k of None \<Rightarrow> Inl KeyError | Some v \<Rightarrow> Inr v)"

definition delitem :: "state_dict \<Rightarrow> string \<Rightarrow> state_dict" where
  "delitem sd k = filter (\<lambda>kv. fst kv \<noteq> k) sd"

text \<open>
  \<^verbatim>\<open>round(m ** 0.5)\<close> for an int \<open>m\<close>. A negative \<open>m\<close> makes \<^verbatim>\<open>m ** 0.5\<close> a complex
  number, which \<^verbatim>\<open>round\<close> rejects with TypeError. Otherwise the result is the integer
  nearest to the square root (never a tie, see \<open>round_sqrt_correct\<close>), computed here
  from the integer square root.
\<close>

primrec floor_sqrt :: "nat \<Rightarrow> nat" where
  "floor_sqrt 0 = 0"
| "floor_sqrt (Suc n) =
     (let r = floor_sqrt n in if (r + 1) * (r + 1) \<le> Suc n then r + 1 else r)"

definition round_sqrt :: "nat \<Rightarrow> nat" where
  "round_sqrt m = (let r = floor_sqrt m in if m - r * r \<le> r then r else r + 1)"

definition py_round_sqrt :: "int \<Rightarrow> py_error + nat" where
  "py_round_sqrt m = (if m < 0 then Inl TypeError else Inr (round_sqrt (nat m)))"

text \<open>
  Lines 533 to 548: the hyperparameters of the vision tower, read from the shapes.
  The result is \<^verbatim>\<open>(image_resolution, vision_layers, vision_width, vision_patch_size)\<close>.
\<close>

definition layer_count :: "state_dict \<Rightarrow> nat \<Rightarrow> py_error + nat" where
  "layer_count sd b =
     seq (mapM (\<lambda>k. py_index (str_split CHR ''.'' k) 2)
               (filter (\<lambda>k. startswith k (''visual.layer'' @ str_nat b)) (map fst sd)))
         (\<lambda>names. Inr (length (remdups names)))"

definition infer_vision :: "state_dict \<Rightarrow> py_error + (nat \<times> vision_layers \<times> nat \<times> nat option)" where
  "infer_vision sd =
     (if has_key sd ''visual.proj'' then
        seq (getitem sd ''visual.conv1.weight'') (\<lambda>w.
        seq (py_index (shape w) 0) (\<lambda>vision_width.
        let vision_layers = length (filter (\<lambda>k. startswith k ''visual.'' \<and>
                                          endswith k ''.attn.in_proj_weight'') (map fst sd)) in
        seq (py_index (shape w) (- 1)) (\<lambda>vision_patch_size.
        seq (getitem sd ''visual.positional_embedding'') (\<lambda>pe.
        seq (py_index (shape pe) 0) (\<lambda>n.
        seq (py_round_sqrt (int n - 1)) (\<lambda>grid_size.
        Inr (vision_patch_size * grid_size, Layers_int vision_layers, vision_width,
             Some vision_patch_size)))))))
      else
        seq (mapM (layer_count sd) [1, 2, 3, 4]) (\<lambda>counts.
        seq (getitem sd ''visual.layer1.0.conv1.weight'') (\<lambda>w.
        seq (py_index (shape w) 0) (\<lambda>vision_width.
        seq (getitem sd ''visual.attnpool.positional_embedding'') (\<lambda>pe.
        seq (py_index (shape pe) 0) (\<lambda>n.
        seq (py_round_sqrt (int n - 1)) (\<lambda>output_width.
        if output_width ^ 2 + 1 \<noteq> n then Inl AssertionError
        else Inr (output_width * 32, Layers_tuple counts, vision_width, None))))))))"

text \<open>
  \<^verbatim>\<open>build_model(state_dict)\<close>. \<^verbatim>\<open>load_state_dict\<close> is torch's and is a parameter
  \<open>load\<close>; it works on a copy of the dictionary. The result is the model and the
  caller's dictionary as the call leaves it.
\<close>

definition build_model ::
  "(module \<Rightarrow> state_dict \<Rightarrow> py_error + module) \<Rightarrow> rng \<Rightarrow> state_dict
     \<Rightarrow> py_error + (module \<times> state_dict)" where
  "build_model load g state_dict =
     seq (infer_vision state_dict)
       (\<lambda>(image_resolution, vision_layers, vision_width, vision_patch_size).
     seq (getitem state_dict ''text_projection'') (\<lambda>tp.
     seq (py_index (shape tp) 1) (\<lambda>embed_dim.
     seq (CLIP_init g embed_dim image_resolution vision_layers vision_width vision_patch_size)
       (\<lambda>model.
     let sd1 = fold (\<lambda>key sd. if has_key sd key then delitem sd key else sd)
                 [''input_resolution'', ''context_length'', ''vocab_size''] state_dict;
         sd2 = fold (\<lambda>key sd. if \<not> contains key ''visual'' then delitem sd key else sd)
                 (map fst sd1) sd1
     in seq (load model sd2) (\<lambda>loaded. Inr (loaded, sd2))))))"

text \<open>A property of every module of a tree, and the class of CLIP's vision tower.\<close>

fun tree_all :: "(module \<Rightarrow> bool) \<Rightarrow> module \<Rightarrow> bool" where
  "tree_all P (Module k a ps cs) =
     (P (Module k a ps cs) \<and> list_all (\<lambda>(n, c). tree_all P c) cs)"


text \<open>An update of parameters only: class, attributes and children stay.\<close>

definition params_only :: "(module \<Rightarrow> module) \<Rightarrow> bool" where
  "params_only f = (\<forall>m. kind (f m) = kind m \<and> attrs (f m) = attrs m \<and> children (f m) = children m)"


text \<open>\<^verbatim>\<open>named_parameters()\<close>, and whether some module of the tree is of a class.\<close>

definition named_parameters :: "module \<Rightarrow> (string \<times> param) list" where
  "named_parameters m =
     concat (map (\<lambda>(p, n). map (\<lambda>(name, prm). (dotted (p @ [name]), prm)) (params n))
                 (named_modules m))"


text \<open>A module of one of the classes \<open>K\<close> whose own parameters are all trainable.\<close>

definition ok :: "kind set \<Rightarrow> module \<Rightarrow> bool" where
  "ok K m = (kind m \<in> K \<and> list_all (\<lambda>np. requires_grad (snd np)) (params m))"

text \<open>The classes that occur in a CLIP with a ResNet tower, and with a transformer tower.\<close>

definition resnet_kinds :: "kind set" where
  "resnet_kinds = {Conv2d, BatchNorm2d, ReLU, AvgPool2d, Identity, Sequential, Linear,
                   Bottleneck, AttentionPool2d, ModifiedResNet, CLIP}"

definition vit_kinds :: "kind set" where
  "vit_kinds = {Conv2d, LayerNorm, Linear, NonDynamicallyQuantizableLinear, QuickGELU,
                MultiheadAttention, Sequential, ResidualAttentionBlock, Adapter,
                AggregationBlock, UnfoldTemporalWindows, Unfold, Correlation_Module,
                TemporalAggregationBlock, Transformer, VisionTransformer, CLIP}"

text \<open>The value of a decimal digit, to read a child's name back.\<close>

definition digit_val :: "char \<Rightarrow> nat" where
  "digit_val c = (if c = CHR ''0'' then 0 else if c = CHR ''1'' then 1 else if c = CHR ''2'' then 2
     else if c = CHR ''3'' then 3 else if c = CHR ''4'' then 4 else if c = CHR ''5'' then 5
     else if c = CHR ''6'' then 6 else if c = CHR ''7'' then 7 else if c = CHR ''8'' then 8 else 9)"

text \<open>
  A small state dictionary of a transformer tower (width 64, patch size 2, a 2 x 2 grid,
  one layer), with the keys of the text tower that \<^verbatim>\<open>build_model\<close> drops.
\<close>

definition example_state_dict :: state_dict where
  "example_state_dict =
     [(''visual.proj'', zeros [64, 8]),
      (''visual.conv1.weight'', zeros [64, 3, 2, 2]),
      (''visual.positional_embedding'', zeros [5, 64]),
      (''visual.transformer.resblocks.0.attn.in_proj_weight'', zeros [192, 64]),
      (''text_projection'', zeros [8, 8]),
      (''input_resolution'', zeros []),
      (''context_length'', zeros []),
      (''vocab_size'', zeros [])]"

section \<open>Tensor operations of torch\<close>

text \<open>
  The operations below are torch's, with the semantics of its documentation, on real
  entries. Each result is built with \<open>mk\<close>. A shape error of torch is RuntimeError.
\<close>

definition the_param :: "module \<Rightarrow> string \<Rightarrow> py_error + tensor" where
  "the_param m name =
     (case map_of (params m) name of None \<Rightarrow> Inl AttributeError | Some p \<Rightarrow> Inr (data p))"

definition the_child :: "module \<Rightarrow> string \<Rightarrow> py_error + module" where
  "the_child m name =
     (case map_of (children m) name of None \<Rightarrow> Inl AttributeError | Some c \<Rightarrow> Inr c)"

subsection \<open>Broadcasting and pointwise arithmetic\<close>

text \<open>
  Shapes are aligned at the right; two sizes are compatible when they are equal or one
  of them is 1. \<open>broadcast_rev\<close> works on the reversed shapes.
\<close>

definition bdim :: "nat \<Rightarrow> nat \<Rightarrow> nat option" where
  "bdim x y = (if x = y \<or> y = 1 then Some x else if x = 1 then Some y else None)"

fun broadcast_rev :: "nat list \<Rightarrow> nat list \<Rightarrow> nat list option" where
  "broadcast_rev [] ys = Some ys"
| "broadcast_rev (x # xs) [] = Some (x # xs)"
| "broadcast_rev (x # xs) (y # ys) =
     (case bdim x y of
        None \<Rightarrow> None
      | Some z \<Rightarrow> map_option ((#) z) (broadcast_rev xs ys))"

definition broadcast_shapes :: "nat list \<Rightarrow> nat list \<Rightarrow> nat list option" where
  "broadcast_shapes a b = map_option rev (broadcast_rev (rev a) (rev b))"

text \<open>The index into an operand of shape \<open>s\<close> for the index \<open>idx\<close> of the result.\<close>

definition bidx :: "nat list \<Rightarrow> nat list \<Rightarrow> nat list" where
  "bidx s idx = map2 (\<lambda>d i. if d = 1 then 0 else i) s (drop (length idx - length s) idx)"

definition pointwise2 :: "(real \<Rightarrow> real \<Rightarrow> real) \<Rightarrow> tensor \<Rightarrow> tensor \<Rightarrow> py_error + tensor" where
  "pointwise2 f a b =
     (case broadcast_shapes (shape a) (shape b) of
        None \<Rightarrow> Inl RuntimeError
      | Some s \<Rightarrow> Inr (mk s (\<lambda>idx. f (entry a (bidx (shape a) idx)) (entry b (bidx (shape b) idx)))))"

definition add :: "tensor \<Rightarrow> tensor \<Rightarrow> py_error + tensor" where
  "add = pointwise2 (+)"

definition mul :: "tensor \<Rightarrow> tensor \<Rightarrow> py_error + tensor" where
  "mul = pointwise2 (*)"

definition pointwise :: "(real \<Rightarrow> real) \<Rightarrow> tensor \<Rightarrow> tensor" where
  "pointwise f a = mk (shape a) (\<lambda>idx. f (entry a idx))"

definition sigmoid :: "real \<Rightarrow> real" where
  "sigmoid x = 1 / (1 + exp (- x))"

subsection \<open>Slicing, concatenation, repetition\<close>

text \<open>\<^verbatim>\<open>x[lo:hi]\<close> on the first dimension, for \<open>0 \<le> lo\<close>; a slice is clipped, never an error.\<close>

definition slice0 :: "nat \<Rightarrow> nat \<Rightarrow> tensor \<Rightarrow> py_error + tensor" where
  "slice0 lo hi a =
     (case shape a of
        [] \<Rightarrow> Inl IndexError
      | n # rest \<Rightarrow>
          Inr (mk ((min hi n - min lo n) # rest) (\<lambda>idx. entry a ((hd idx + lo) # tl idx))))"

text \<open>\<^verbatim>\<open>x[:1]\<close> and \<^verbatim>\<open>x[1:]\<close>.\<close>

definition first_token :: "tensor \<Rightarrow> py_error + tensor" where
  "first_token a = slice0 0 1 a"

definition other_tokens :: "tensor \<Rightarrow> py_error + tensor" where
  "other_tokens a = (case shape a of [] \<Rightarrow> Inl IndexError | n # rest \<Rightarrow> slice0 1 n a)"

text \<open>\<^verbatim>\<open>x[i]\<close> and \<^verbatim>\<open>x[:, i]\<close> for \<open>0 \<le> i\<close>: the dimension is dropped.\<close>

definition select0 :: "nat \<Rightarrow> tensor \<Rightarrow> py_error + tensor" where
  "select0 i a =
     (case shape a of
        [] \<Rightarrow> Inl IndexError
      | n # rest \<Rightarrow> if i < n then Inr (mk rest (\<lambda>idx. entry a (i # idx))) else Inl IndexError)"

definition select1 :: "nat \<Rightarrow> tensor \<Rightarrow> py_error + tensor" where
  "select1 i a =
     (if length (shape a) < 2 \<or> shape a ! 1 \<le> i then Inl IndexError
      else Inr (mk (hd (shape a) # drop 2 (shape a)) (\<lambda>idx. entry a (hd idx # i # tl idx))))"

text \<open>\<^verbatim>\<open>torch.concat((a, b), 0)\<close> and \<^verbatim>\<open>torch.cat([a, b], dim=1)\<close>.\<close>

definition concat0 :: "tensor \<Rightarrow> tensor \<Rightarrow> py_error + tensor" where
  "concat0 a b =
     (if shape a = [] \<or> shape b = [] \<or> tl (shape a) \<noteq> tl (shape b) then Inl RuntimeError
      else
        let n = hd (shape a); m = hd (shape b) in
          Inr (mk ((n + m) # tl (shape a))
            (\<lambda>idx. if hd idx < n then entry a idx else entry b ((hd idx - n) # tl idx))))"

definition concat1 :: "tensor \<Rightarrow> tensor \<Rightarrow> py_error + tensor" where
  "concat1 a b =
     (if length (shape a) < 2 \<or> length (shape b) < 2 \<or> hd (shape a) \<noteq> hd (shape b) \<or>
         drop 2 (shape a) \<noteq> drop 2 (shape b)
      then Inl RuntimeError
      else
        let la = shape a ! 1; lb = shape b ! 1 in
          Inr (mk (hd (shape a) # (la + lb) # drop 2 (shape a))
            (\<lambda>idx. if idx ! 1 < la then entry a idx
                   else entry b (hd idx # (idx ! 1 - la) # drop 2 idx))))"

text \<open>
  \<^verbatim>\<open>a.repeat(*reps)\<close>: fewer counts than dimensions is an error, more counts add leading
  dimensions.
\<close>

definition repeat :: "nat list \<Rightarrow> tensor \<Rightarrow> py_error + tensor" where
  "repeat reps a =
     (if length reps < length (shape a) then Inl RuntimeError
      else let lead = length reps - length (shape a);
               s = replicate lead 1 @ shape a
           in Inr (mk (map2 (*) s reps)
                (\<lambda>idx. entry a (drop lead (map2 (\<lambda>i d. i mod d) idx s)))))"

subsection \<open>permute, view and reshape\<close>

definition index_of :: "nat list \<Rightarrow> nat \<Rightarrow> nat" where
  "index_of dims j = length (takeWhile (\<lambda>d. d \<noteq> j) dims)"

text \<open>\<^verbatim>\<open>a.permute(*dims)\<close>: dimension \<open>k\<close> of the result is dimension \<open>dims ! k\<close> of \<open>a\<close>.\<close>

definition permute :: "nat list \<Rightarrow> tensor \<Rightarrow> py_error + tensor" where
  "permute dims a =
     (let r = length (shape a) in
      if length dims = r \<and> distinct dims \<and> list_all (\<lambda>d. d < r) dims
      then Inr (mk (map (\<lambda>d. shape a ! d) dims)
             (\<lambda>idx. entry a (map (\<lambda>j. idx ! index_of dims j) [0..<r])))
      else Inl RuntimeError)"

text \<open>Row-major position of an index, and the index of a position.\<close>

definition ravel :: "nat list \<Rightarrow> nat list \<Rightarrow> nat" where
  "ravel s idx = foldl (\<lambda>acc di. acc * fst di + snd di) 0 (zip s idx)"

fun unravel :: "nat list \<Rightarrow> nat \<Rightarrow> nat list" where
  "unravel [] k = []"
| "unravel (d # ds) k = (k div prod_list ds) # unravel ds (k mod prod_list ds)"

text \<open>
  The shape that \<^verbatim>\<open>view\<close> and \<^verbatim>\<open>reshape\<close> give for the requested sizes: at most one
  size is \<open>-1\<close> and is inferred from the number of elements.
\<close>

definition infer_sizes :: "int list \<Rightarrow> nat \<Rightarrow> py_error + nat list" where
  "infer_sizes sizes n =
     (let known = prod_list (map nat (filter (\<lambda>z. 0 \<le> z) sizes)) in
      if list_ex (\<lambda>z. z < - 1) sizes \<or> 1 < length (filter (\<lambda>z. z = - 1) sizes)
      then Inl RuntimeError
      else if - 1 \<in> set sizes
      then (if known = 0 \<or> n mod known \<noteq> 0 then Inl RuntimeError
            else Inr (map (\<lambda>z. if z = - 1 then n div known else nat z) sizes))
      else (if known = n then Inr (map nat sizes) else Inl RuntimeError))"

text \<open>
  \<^verbatim>\<open>a.view(*sizes)\<close> and \<^verbatim>\<open>a.reshape(*sizes)\<close>: the same entries in row-major order. (The
  views of the source split or merge adjacent dimensions, which torch accepts for every
  memory layout that reaches them.)
\<close>

definition view :: "int list \<Rightarrow> tensor \<Rightarrow> py_error + tensor" where
  "view sizes a =
     seq (infer_sizes sizes (prod_list (shape a)))
       (\<lambda>s. Inr (mk s (\<lambda>idx. entry a (unravel (shape a) (ravel s idx)))))"

definition reshape :: "int list \<Rightarrow> tensor \<Rightarrow> py_error + tensor" where
  "reshape = view"

subsection \<open>Linear algebra and layers\<close>

text \<open>\<^verbatim>\<open>F.linear(x, w, b)\<close>: over the last dimension, \<open>y = x w\<^sup>T + b\<close>.\<close>

definition linear :: "tensor \<Rightarrow> tensor \<Rightarrow> tensor \<Rightarrow> py_error + tensor" where
  "linear x w b =
     (case shape w of
        [out_features, in_features] \<Rightarrow>
          if shape x \<noteq> [] \<and> last (shape x) = in_features \<and> shape b = [out_features]
          then Inr (mk (butlast (shape x) @ [out_features])
                 (\<lambda>idx. (\<Sum>i<in_features. entry x (butlast idx @ [i]) * entry w [last idx, i])
                        + entry b [last idx]))
          else Inl RuntimeError
      | _ \<Rightarrow> Inl RuntimeError)"

definition Linear_forward :: "module \<Rightarrow> tensor \<Rightarrow> py_error + tensor" where
  "Linear_forward m x =
     seq (the_param m ''weight'') (\<lambda>w. seq (the_param m ''bias'') (\<lambda>b. linear x w b))"

text \<open>\<^verbatim>\<open>QuickGELU.forward\<close>: \<^verbatim>\<open>x * torch.sigmoid(1.702 * x)\<close>.\<close>

definition QuickGELU_forward :: "tensor \<Rightarrow> tensor" where
  "QuickGELU_forward x = pointwise (\<lambda>v. v * sigmoid (1702 / 1000 * v)) x"

text \<open>
  \<^verbatim>\<open>nn.Sequential.forward\<close> applies the children in order. The layers that the
  transformer tower puts into a Sequential are Linear and QuickGELU.
\<close>

definition layer_forward :: "module \<Rightarrow> tensor \<Rightarrow> py_error + tensor" where
  "layer_forward m x =
     (if isinstance_Linear m then Linear_forward m x
      else if kind m = QuickGELU then Inr (QuickGELU_forward x)
      else Inl Unmodelled)"

definition Sequential_forward :: "module \<Rightarrow> tensor \<Rightarrow> py_error + tensor" where
  "Sequential_forward m x = fold (\<lambda>nc r. seq r (layer_forward (snd nc))) (children m) (Inr x)"

text \<open>
  \<^verbatim>\<open>LayerNorm.forward\<close>: the cast to float32 and back changes no real value. Over the
  last dimension, of size \<open>d\<close>: \<open>(x - mean) / sqrt (var + eps) * weight + bias\<close> with the
  biased variance and \<open>eps = 1e-5\<close>.
\<close>

definition layer_norm :: "nat \<Rightarrow> tensor \<Rightarrow> tensor \<Rightarrow> tensor \<Rightarrow> py_error + tensor" where
  "layer_norm d w b x =
     (if shape x \<noteq> [] \<and> last (shape x) = d \<and> shape w = [d] \<and> shape b = [d]
      then Inr (mk (shape x)
             (\<lambda>idx. let row = (\<lambda>i. entry x (butlast idx @ [i]));
                        mean = (\<Sum>i<d. row i) / real d;
                        var = (\<Sum>i<d. (row i - mean)\<^sup>2) / real d
                    in (entry x idx - mean) / sqrt (var + 1 / 100000) * entry w [last idx]
                       + entry b [last idx]))
      else Inl RuntimeError)"

definition LayerNorm_forward :: "module \<Rightarrow> tensor \<Rightarrow> py_error + tensor" where
  "LayerNorm_forward m x =
     (case map_of (attrs m) ''normalized_shape'' of
        Some (Int_attr d) \<Rightarrow>
          seq (the_param m ''weight'') (\<lambda>w. seq (the_param m ''bias'') (\<lambda>b. layer_norm d w b x))
      | _ \<Rightarrow> Inl AttributeError)"

text \<open>
  \<^verbatim>\<open>nn.MultiheadAttention.forward(query, key, value, need_weights=False)\<close> without a
  mask, sequence-first: query \<open>(L, N, E)\<close>, key and value \<open>(S, N, E)\<close>, result \<open>(L, N, E)\<close>.
  Sample \<open>n\<close> of the batch dimension is computed from sample \<open>n\<close> of query, key and value:
  with \<open>H\<close> heads of width \<open>E div H\<close>, the projected query of each head is compared with
  the projected keys of the same sample, and the softmax of the scaled scores weights
  the projected values. (Over the reals the softmax of an empty key sequence, NaN in
  torch, is 0.)
\<close>

definition softmax_weight :: "nat \<Rightarrow> (nat \<Rightarrow> real) \<Rightarrow> nat \<Rightarrow> real" where
  "softmax_weight S score s = exp (score s) / (\<Sum>s'<S. exp (score s'))"

definition multi_head_attention ::
  "nat \<Rightarrow> tensor \<Rightarrow> tensor \<Rightarrow> tensor \<Rightarrow> tensor \<Rightarrow> tensor \<Rightarrow> tensor \<Rightarrow> tensor
     \<Rightarrow> py_error + tensor" where
  "multi_head_attention H w_in b_in w_out b_out query key value =
     (if length (shape query) \<noteq> 3 \<or> length (shape key) \<noteq> 3 \<or> length (shape value) \<noteq> 3
      then Inl Unmodelled
      else
        let L = shape query ! 0; N = shape query ! 1; E = shape query ! 2; S = shape key ! 0 in
          if shape key = [S, N, E] \<and> shape value = [S, N, E] \<and> H \<noteq> 0 \<and> E mod H = 0 \<and>
             shape w_in = [3 * E, E] \<and> shape b_in = [3 * E] \<and>
             shape w_out = [E, E] \<and> shape b_out = [E]
          then
            let dh = E div H;
                q = (\<lambda>l n e. (\<Sum>j<E. entry query [l, n, j] * entry w_in [e, j]) + entry b_in [e]);
                k = (\<lambda>s n e. (\<Sum>j<E. entry key [s, n, j] * entry w_in [E + e, j])
                              + entry b_in [E + e]);
                v = (\<lambda>s n e. (\<Sum>j<E. entry value [s, n, j] * entry w_in [2 * E + e, j])
                              + entry b_in [2 * E + e]);
                score = (\<lambda>n h l s. (\<Sum>c<dh. q l n (h * dh + c) * k s n (h * dh + c))
                                      / sqrt (real dh));
                head = (\<lambda>l n e. \<Sum>s<S. softmax_weight S (score n (e div dh) l) s * v s n e)
            in Inr (mk [L, N, E]
                 (\<lambda>idx. (\<Sum>j<E. head (idx ! 0) (idx ! 1) j * entry w_out [idx ! 2, j])
                        + entry b_out [idx ! 2]))
          else Inl RuntimeError)"

definition MultiheadAttention_forward ::
  "module \<Rightarrow> tensor \<Rightarrow> tensor \<Rightarrow> tensor \<Rightarrow> py_error + tensor" where
  "MultiheadAttention_forward m query key value =
     (case map_of (attrs m) ''num_heads'' of
        Some (Int_attr H) \<Rightarrow>
          seq (the_param m ''in_proj_weight'') (\<lambda>w_in.
          seq (the_param m ''in_proj_bias'') (\<lambda>b_in.
          seq (the_child m ''out_proj'') (\<lambda>out_proj.
          seq (the_param out_proj ''weight'') (\<lambda>w_out.
          seq (the_param out_proj ''bias'') (\<lambda>b_out.
          multi_head_attention H w_in b_in w_out b_out query key value)))))
      | _ \<Rightarrow> Inl AttributeError)"

text \<open>\<^verbatim>\<open>a @ b\<close> for two matrices.\<close>

definition matmul :: "tensor \<Rightarrow> tensor \<Rightarrow> py_error + tensor" where
  "matmul a b =
     (if length (shape a) \<noteq> 2 \<or> length (shape b) \<noteq> 2 then Inl Unmodelled
      else
        let n = shape a ! 0; k = shape a ! 1; m = shape b ! 1 in
          if shape b ! 0 = k
          then Inr (mk [n, m] (\<lambda>idx. \<Sum>i<k. entry a [idx ! 0, i] * entry b [i, idx ! 1]))
          else Inl RuntimeError)"

text \<open>
  \<^verbatim>\<open>nn.Conv2d.forward\<close> for a batch \<open>(N, C, H, W)\<close>, a square kernel, no padding and no
  bias, as \<^verbatim>\<open>VisionTransformer.conv1\<close> is built.
\<close>

definition conv2d :: "nat \<Rightarrow> tensor \<Rightarrow> tensor \<Rightarrow> py_error + tensor" where
  "conv2d stride x w =
     (if length (shape x) \<noteq> 4 \<or> length (shape w) \<noteq> 4 then Inl Unmodelled
      else
        let N = shape x ! 0; C = shape x ! 1; H = shape x ! 2; W = shape x ! 3;
            out_channels = shape w ! 0; in_channels = shape w ! 1;
            kh = shape w ! 2; kw = shape w ! 3 in
          if C = in_channels \<and> kh \<le> H \<and> kw \<le> W \<and> stride \<noteq> 0
          then Inr (mk [N, out_channels, (H - kh) div stride + 1, (W - kw) div stride + 1]
                 (\<lambda>idx. \<Sum>c<C. \<Sum>di<kh. \<Sum>dj<kw.
                    entry x [idx ! 0, c, idx ! 2 * stride + di, idx ! 3 * stride + dj]
                    * entry w [idx ! 1, c, di, dj]))
          else Inl RuntimeError)"

definition Conv2d_forward :: "module \<Rightarrow> tensor \<Rightarrow> py_error + tensor" where
  "Conv2d_forward m x =
     (case (map_of (attrs m) ''stride'', map_of (attrs m) ''padding'') of
        (Some (Int_attr stride), Some (Int_attr 0)) \<Rightarrow>
          seq (the_param m ''weight'') (\<lambda>w. conv2d stride x w)
      | _ \<Rightarrow> Inl Unmodelled)"

text \<open>
  \<^verbatim>\<open>nn.Unfold\<close> with kernel \<open>(k, 1)\<close>, dilation \<open>(dl, 1)\<close>, stride \<open>(st, 1)\<close> and padding
  \<open>(pd, 0)\<close> on a batch \<open>(N, C, H, W)\<close>: the result is \<open>(N, C * k, H' * W)\<close>, where channel
  \<open>c * k + j\<close> at block \<open>t * W + p\<close> is the input at row \<open>t * st + j * dl\<close> of the
  zero-padded rows, channel \<open>c\<close>, column \<open>p\<close>.
\<close>

definition unfold_rows :: "nat \<Rightarrow> nat \<Rightarrow> nat \<Rightarrow> nat \<Rightarrow> tensor \<Rightarrow> py_error + tensor" where
  "unfold_rows k dl st pd a =
     (if length (shape a) \<noteq> 4 then Inl Unmodelled
      else
        let N = shape a ! 0; C = shape a ! 1; H = shape a ! 2; W = shape a ! 3 in
          if st = 0 \<or> k = 0 \<or> dl = 0 \<or> W = 0 \<or> H + 2 * pd < dl * (k - 1) + 1 then Inl RuntimeError
          else Inr (mk [N, C * k, ((H + 2 * pd - dl * (k - 1) - 1) div st + 1) * W]
                 (\<lambda>idx. let c = idx ! 1 div k; j = idx ! 1 mod k;
                            t = idx ! 2 div W; p = idx ! 2 mod W;
                            row = t * st + j * dl
                        in if pd \<le> row \<and> row - pd < H then entry a [idx ! 0, c, row - pd, p]
                           else 0)))"

text \<open>
  \<^verbatim>\<open>torch.einsum('lnd,ond->lon', a, b)\<close> and \<^verbatim>\<open>torch.einsum('lon,ond->lnd', w, b)\<close>; sizes
  under one letter must be equal or 1.
\<close>

definition bsel :: "nat \<Rightarrow> nat \<Rightarrow> nat" where
  "bsel d i = (if d = 1 then 0 else i)"

definition einsum_lnd_ond_lon :: "tensor \<Rightarrow> tensor \<Rightarrow> py_error + tensor" where
  "einsum_lnd_ond_lon a b =
     (if length (shape a) \<noteq> 3 \<or> length (shape b) \<noteq> 3 then Inl RuntimeError
      else
        let L = shape a ! 0; N = shape a ! 1; D = shape a ! 2;
            O' = shape b ! 0; N' = shape b ! 1; D' = shape b ! 2 in
          (case bdim N N' of
             None \<Rightarrow> Inl RuntimeError
           | Some Nb \<Rightarrow>
              (case bdim D D' of
                 None \<Rightarrow> Inl RuntimeError
               | Some Db \<Rightarrow>
                   Inr (mk [L, O', Nb]
                     (\<lambda>idx. \<Sum>d<Db. entry a [idx ! 0, bsel N (idx ! 2), bsel D d]
                               * entry b [idx ! 1, bsel N' (idx ! 2), bsel D' d])))))"

definition einsum_lon_ond_lnd :: "tensor \<Rightarrow> tensor \<Rightarrow> py_error + tensor" where
  "einsum_lon_ond_lnd w b =
     (if length (shape w) \<noteq> 3 \<or> length (shape b) \<noteq> 3 then Inl RuntimeError
      else
        let L = shape w ! 0; O' = shape w ! 1; N = shape w ! 2;
            O'' = shape b ! 0; N' = shape b ! 1; D = shape b ! 2 in
          (case bdim O' O'' of
             None \<Rightarrow> Inl RuntimeError
           | Some Ob \<Rightarrow>
              (case bdim N N' of
                 None \<Rightarrow> Inl RuntimeError
               | Some Nb \<Rightarrow>
                   Inr (mk [L, Nb, D]
                     (\<lambda>idx. \<Sum>j<Ob. entry w [idx ! 0, bsel O' j, bsel N (idx ! 1)]
                               * entry b [bsel O'' j, bsel N' (idx ! 1), idx ! 2])))))"

section \<open>The forward passes\<close>

text \<open>
  \<^verbatim>\<open>checkpoint(f, x)\<close> recomputes activations in the backward pass; its value is
  \<^verbatim>\<open>f(x)\<close>. Every block of the source is built with \<^verbatim>\<open>attn_mask = None\<close>, and the
  assignment that opens each \<^verbatim>\<open>attention\<close> method then stores None again: the forward
  passes change no attribute, so they are functions of the module and the input.
\<close>

definition checkpoint :: "('a \<Rightarrow> py_error + 'b) \<Rightarrow> 'a \<Rightarrow> py_error + 'b" where
  "checkpoint f x = f x"

definition Adapter_forward :: "module \<Rightarrow> tensor \<Rightarrow> py_error + tensor" where
  "Adapter_forward self x =
     (case map_of (attrs self) ''skip_connect'' of
        Some (Bool_attr skip_connect) \<Rightarrow>
          seq (the_child self ''mlp'') (\<lambda>mlp.
          seq (Sequential_forward mlp x) (\<lambda>y.
          if skip_connect then add y x else Inr y))
      | _ \<Rightarrow> Inl AttributeError)"

definition ResidualAttentionBlock_attention :: "module \<Rightarrow> tensor \<Rightarrow> py_error + tensor" where
  "ResidualAttentionBlock_attention self x =
     (if map_of (attrs self) ''attn_mask'' \<noteq> Some None_attr then Inl Unmodelled
      else
        seq (the_child self ''attn'') (\<lambda>attn.
        seq (the_param self ''prefix_embedding_k'') (\<lambda>prefix_embedding_k.
        seq (py_index (shape x) 1) (\<lambda>n.
        seq (repeat [1, n, 1] prefix_embedding_k) (\<lambda>pk.
        seq (concat0 x pk) (\<lambda>key.
        seq (the_param self ''prefix_embedding_v'') (\<lambda>prefix_embedding_v.
        seq (repeat [1, n, 1] prefix_embedding_v) (\<lambda>pv.
        seq (concat0 x pv) (\<lambda>value.
        MultiheadAttention_forward attn x key value)))))))))"

definition ResidualAttentionBlock_forward :: "module \<Rightarrow> tensor \<Rightarrow> py_error + tensor" where
  "ResidualAttentionBlock_forward self x =
     (case map_of (attrs self) ''checkpointing'' of
        Some (Bool_attr checkpointing) \<Rightarrow>
          seq (the_child self ''ln_1'') (\<lambda>ln_1.
          seq (the_child self ''S_Adapter'') (\<lambda>S_Adapter.
          seq (the_child self ''ln_2'') (\<lambda>ln_2.
          seq (the_child self ''mlp'') (\<lambda>mlp.
          seq (the_child self ''MLP_Adapter'') (\<lambda>MLP_Adapter.
          seq (if checkpointing
               then seq (checkpoint (LayerNorm_forward ln_1) x)
                      (checkpoint (ResidualAttentionBlock_attention self))
               else seq (LayerNorm_forward ln_1 x) (ResidualAttentionBlock_attention self)) (\<lambda>a.
          seq (add x a) (\<lambda>xa.
          seq (Adapter_forward S_Adapter x) (\<lambda>s.
          seq (add xa s) (\<lambda>x.
          seq (if checkpointing
               then seq (checkpoint (LayerNorm_forward ln_2) x)
                      (checkpoint (Sequential_forward mlp))
               else seq (LayerNorm_forward ln_2 x) (Sequential_forward mlp)) (\<lambda>h.
          seq (add x h) (\<lambda>xh.
          seq (Adapter_forward MLP_Adapter x) (\<lambda>s.
          add xh s))))))))))))
      | _ \<Rightarrow> Inl AttributeError)"

definition AggregationBlock_attention :: "module \<Rightarrow> tensor \<Rightarrow> py_error + tensor" where
  "AggregationBlock_attention self x =
     (if map_of (attrs self) ''attn_mask'' \<noteq> Some None_attr then Inl Unmodelled
      else
        seq (the_child self ''attn'') (\<lambda>attn.
        seq (first_token x) (\<lambda>q.
        seq (other_tokens x) (\<lambda>k.
        seq (other_tokens x) (\<lambda>v.
        MultiheadAttention_forward attn q k v)))))"

definition AggregationBlock_forward :: "module \<Rightarrow> tensor \<Rightarrow> tensor \<Rightarrow> py_error + tensor" where
  "AggregationBlock_forward self x cls =
     seq (the_child self ''ln_1'') (\<lambda>ln_1.
     seq (the_child self ''mlp'') (\<lambda>mlp.
     seq (the_child self ''ln_2'') (\<lambda>ln_2.
     seq (concat0 cls x) (\<lambda>cx.
     seq (LayerNorm_forward ln_1 cx) (\<lambda>h.
     seq (AggregationBlock_attention self h) (\<lambda>a.
     seq (add cls a) (\<lambda>cls.
     seq (LayerNorm_forward ln_2 cls) (\<lambda>h.
     seq (Sequential_forward mlp h) (\<lambda>y.
     add cls y)))))))))"

text \<open>\<^verbatim>\<open>NT, C, P = x.shape\<close> raises ValueError unless \<open>x\<close> has three dimensions.\<close>

definition unpack3 :: "tensor \<Rightarrow> py_error + (nat \<times> nat \<times> nat)" where
  "unpack3 x = (case shape x of [a, b, c] \<Rightarrow> Inr (a, b, c) | _ \<Rightarrow> Inl ValueError)"

definition attr_nat :: "module \<Rightarrow> string \<Rightarrow> py_error + nat" where
  "attr_nat m name =
     (case map_of (attrs m) name of Some (Int_attr n) \<Rightarrow> Inr n | _ \<Rightarrow> Inl AttributeError)"

definition UnfoldTemporalWindows_forward :: "module \<Rightarrow> tensor \<Rightarrow> int \<Rightarrow> py_error + tensor" where
  "UnfoldTemporalWindows_forward self x T =
     seq (attr_nat self ''window_size'') (\<lambda>window_size.
     seq (attr_nat self ''window_dilation'') (\<lambda>window_dilation.
     seq (attr_nat self ''window_stride'') (\<lambda>window_stride.
     seq (attr_nat self ''padding'') (\<lambda>padding.
     seq (unpack3 x) (\<lambda>(NT, C, P).
     seq (view [- 1, T, int C, int P] x) (\<lambda>x.
     seq (permute [0, 2, 1, 3] x) (\<lambda>x.
     seq (unfold_rows window_size window_dilation window_stride padding x) (\<lambda>x.
     seq (view [- 1, int C, int window_size, T, int P] x) (\<lambda>x.
     seq (view [- 1, int C, int window_size, T, int P] x) (\<lambda>x.
     seq (permute [0, 3, 1, 2, 4] x) (\<lambda>x.
     reshape [int NT, int C, - 1] x)))))))))))"

text \<open>
  \<^verbatim>\<open>Correlation_Module.forward\<close>. (\<^verbatim>\<open>math.sqrt(D)\<close> is 0 for \<open>D = 0\<close>, and the division
  of a tensor by it raises nothing.)
\<close>

definition Correlation_Module_forward :: "tensor \<Rightarrow> tensor \<Rightarrow> py_error + tensor" where
  "Correlation_Module_forward x upfold =
     seq (unpack3 x) (\<lambda>(L, N, D).
     seq (einsum_lnd_ond_lon x upfold) (\<lambda>e.
     let affinities = pointwise (\<lambda>v. v / sqrt (real D)) e in
     einsum_lon_ond_lnd (pointwise (\<lambda>v. sigmoid v - 1 / 2) affinities) upfold))"

definition TemporalAggregationBlock_attention :: "module \<Rightarrow> tensor \<Rightarrow> int \<Rightarrow> py_error + tensor" where
  "TemporalAggregationBlock_attention self x T =
     (if map_of (attrs self) ''attn_mask'' \<noteq> Some None_attr then Inl Unmodelled
      else
        seq (the_child self ''upfold'') (\<lambda>upfold.
        seq (other_tokens x) (\<lambda>xs.
        seq (permute [1, 2, 0] xs) (\<lambda>xs.
        seq (UnfoldTemporalWindows_forward upfold xs T) (\<lambda>u.
        seq (permute [2, 0, 1] u) (\<lambda>x_upfold.
        seq (first_token x) (\<lambda>c.
        Correlation_Module_forward c x_upfold)))))))"

definition TemporalAggregationBlock_forward :: "module \<Rightarrow> tensor \<Rightarrow> int \<Rightarrow> py_error + tensor" where
  "TemporalAggregationBlock_forward self x T =
     seq (the_child self ''ln_1'') (\<lambda>ln_1.
     seq (LayerNorm_forward ln_1 x) (\<lambda>h.
     TemporalAggregationBlock_attention self h T))"

text \<open>
  The loop of \<^verbatim>\<open>Transformer.forward\<close>: layer \<open>i\<close> maps \<open>(x, query)\<close> to
  \<^verbatim>\<open>x = resblocks[i](x)\<close> and \<^verbatim>\<open>query = aggblocks[i](x, query)\<close>.
\<close>

definition transformer_layer ::
  "module list \<Rightarrow> module list \<Rightarrow> nat \<Rightarrow> tensor \<times> tensor \<Rightarrow> py_error + tensor \<times> tensor" where
  "transformer_layer resblocks aggblocks i xq =
     seq (py_index resblocks (int i)) (\<lambda>resblock.
     seq (ResidualAttentionBlock_forward resblock (fst xq)) (\<lambda>x.
     seq (py_index aggblocks (int i)) (\<lambda>aggblock.
     seq (checkpoint (\<lambda>(x, query). AggregationBlock_forward aggblock x query) (x, snd xq)) (\<lambda>query.
     Inr (x, query)))))"

definition Transformer_forward :: "module \<Rightarrow> tensor \<Rightarrow> int \<Rightarrow> py_error + tensor \<times> tensor" where
  "Transformer_forward self x T =
     seq (unpack3 x) (\<lambda>(L, N, D).
     seq (the_param self ''query'') (\<lambda>query.
     seq (repeat [1, N, 1] query) (\<lambda>query.
     seq (the_child self ''resblocks'') (\<lambda>resblocks.
     seq (the_child self ''aggblocks'') (\<lambda>aggblocks.
     seq (fold (\<lambda>i r. seq r (transformer_layer (map snd (children resblocks))
                                 (map snd (children aggblocks)) i))
               [0..<length (children resblocks)] (Inr (x, query))) (\<lambda>(x, query).
     seq (the_child self ''taggblocks'') (\<lambda>taggblocks.
     seq (checkpoint (\<lambda>(x, T). TemporalAggregationBlock_forward taggblocks x T) (x, T)) (\<lambda>t.
     seq (the_param self ''temporal_ada_weight'') (\<lambda>temporal_ada_weight.
     seq (mul t temporal_ada_weight) (\<lambda>tw.
     seq (add x tw) (\<lambda>x.
     Inr (x, query))))))))))))"

text \<open>
  \<^verbatim>\<open>VisionTransformer.forward\<close>, lines 410 to 417: the tokens that enter the
  transformer, and then the whole pass.
\<close>

definition VisionTransformer_tokens :: "module \<Rightarrow> tensor \<Rightarrow> py_error + tensor" where
  "VisionTransformer_tokens self x =
     seq (the_child self ''conv1'') (\<lambda>conv1.
     seq (Conv2d_forward conv1 x) (\<lambda>x.
     seq (py_index (shape x) 0) (\<lambda>s0.
     seq (py_index (shape x) 1) (\<lambda>s1.
     seq (reshape [int s0, int s1, - 1] x) (\<lambda>x.
     seq (permute [0, 2, 1] x) (\<lambda>x.
     seq (the_param self ''class_embedding'') (\<lambda>class_embedding.
     seq (py_index (shape x) 0) (\<lambda>s0.
     seq (py_index (shape x) (- 1)) (\<lambda>sl.
     seq (add class_embedding (zeros [s0, 1, sl])) (\<lambda>c.
     seq (concat1 c x) (\<lambda>x.
     seq (the_param self ''positional_embedding'') (\<lambda>positional_embedding.
     seq (add x positional_embedding) (\<lambda>x.
     seq (the_child self ''ln_pre'') (\<lambda>ln_pre.
     seq (LayerNorm_forward ln_pre x) (\<lambda>x.
     permute [1, 0, 2] x)))))))))))))))"

definition VisionTransformer_forward :: "module \<Rightarrow> tensor \<Rightarrow> int \<Rightarrow> py_error + tensor" where
  "VisionTransformer_forward self x T =
     seq (VisionTransformer_tokens self x) (\<lambda>x.
     seq (the_child self ''transformer'') (\<lambda>transformer.
     seq (Transformer_forward transformer x T) (\<lambda>(x, new_cls).
     seq (permute [1, 0, 2] x) (\<lambda>x.
     seq (the_child self ''ln_post'') (\<lambda>ln_post.
     seq (select1 0 x) (\<lambda>x0.
     seq (LayerNorm_forward ln_post x0) (\<lambda>a.
     seq (the_param self ''ada_weight'') (\<lambda>ada_weight.
     seq (select0 0 ada_weight) (\<lambda>w0.
     seq (mul a w0) (\<lambda>aw.
     seq (the_child self ''ln_post_cls'') (\<lambda>ln_post_cls.
     seq (permute [1, 0, 2] new_cls) (\<lambda>c.
     seq (LayerNorm_forward ln_post_cls c) (\<lambda>c.
     seq (select1 0 c) (\<lambda>c0.
     seq (select0 1 ada_weight) (\<lambda>w1.
     seq (mul c0 w1) (\<lambda>cw.
     seq (add aw cw) (\<lambda>x.
     case map_of (params self) ''proj'' of
       None \<Rightarrow> Inr x
     | Some proj \<Rightarrow> matmul x (data proj))))))))))))))))))"

text \<open>
  \<open>zeroed a b\<close>: the module \<open>b\<close> is \<open>a\<close> after \<open>zero_linear\<close> at some of its modules.
\<close>

definition zero_wb :: "(string \<times> param) list \<Rightarrow> (string \<times> param) list" where
  "zero_wb ps = params (zero_linear (Module Linear [] ps []))"

fun zeroed :: "module \<Rightarrow> module \<Rightarrow> bool" where
  "zeroed (Module k a ps cs) b =
     (kind b = k \<and> attrs b = a \<and> (params b = ps \<or> params b = zero_wb ps) \<and>
      list_all2 (\<lambda>nc nc'. fst nc' = fst nc \<and> zeroed (snd nc) (snd nc')) cs (children b))"

text \<open>Every tensor that an operation returns is of the form \<open>mk s f\<close>.\<close>

definition canonical :: "tensor \<Rightarrow> bool" where
  "canonical a = (a = mk (shape a) (entry a))"


section \<open>Properties\<close>

subsection \<open>Sequencing, lists and square roots\<close>

lemma seq_Inr_iff: "seq m f = Inr y \<longleftrightarrow> (\<exists>v. m = Inr v \<and> f v = Inr y)"
  by (cases m) (simp_all add: seq_def)

lemma seq_Inr [simp]: "seq (Inr v) f = f v"
  by (simp add: seq_def)

lemma seq_Inl [simp]: "seq (Inl e) f = Inl e"
  by (simp add: seq_def)

lemma mapM_Inr:
  "mapM f xs = Inr ys \<Longrightarrow> length ys = length xs \<and> (\<forall>i < length xs. f (xs ! i) = Inr (ys ! i))"
proof (induction xs arbitrary: ys)
  case Nil
  then show ?case by simp
next
  case (Cons x xs)
  then obtain y ys' where y: "f x = Inr y" and ys': "mapM f xs = Inr ys'" and eq: "ys = y # ys'"
    by (auto simp: seq_Inr_iff)
  from Cons.IH[OF ys'] y eq show ?case
    by (auto simp: nth_Cons split: nat.splits)
qed

lemma mapM_ok:
  "(\<And>x. x \<in> set xs \<Longrightarrow> \<exists>y. f x = Inr y) \<Longrightarrow> \<exists>ys. mapM f xs = Inr ys"
proof (induction xs)
  case Nil
  then show ?case by simp
next
  case (Cons x xs)
  then obtain y where "f x = Inr y" by auto
  moreover from Cons obtain ys where "mapM f xs = Inr ys" by auto
  ultimately show ?case by simp
qed



subsection \<open>Module trees\<close>

lemma named_modules_mem:
  "(q, x) \<in> set (named_modules (Module k a ps cs)) \<longleftrightarrow>
     (q = [] \<and> x = Module k a ps cs) \<or>
     (\<exists>n c q'. (n, c) \<in> set cs \<and> (q', x) \<in> set (named_modules c) \<and> q = n # q')"
  by force

lemma tree_all_named: "tree_all P m \<longleftrightarrow> (\<forall>p n. (p, n) \<in> set (named_modules m) \<longrightarrow> P n)"
proof (induction m rule: named_modules.induct)
  case (1 k a ps cs)
  have IH: "\<And>n c. (n, c) \<in> set cs \<Longrightarrow>
              tree_all P c = (\<forall>p x. (p, x) \<in> set (named_modules c) \<longrightarrow> P x)"
    using 1 by simp
  have "tree_all P (Module k a ps cs) \<longleftrightarrow>
          P (Module k a ps cs) \<and> (\<forall>n c. (n, c) \<in> set cs \<longrightarrow> tree_all P c)"
    by (auto simp: list_all_iff)
  also have "\<dots> \<longleftrightarrow> P (Module k a ps cs) \<and>
          (\<forall>n c. (n, c) \<in> set cs \<longrightarrow> (\<forall>p x. (p, x) \<in> set (named_modules c) \<longrightarrow> P x))"
    using IH by simp
  also have "\<dots> \<longleftrightarrow> (\<forall>p n. (p, n) \<in> set (named_modules (Module k a ps cs)) \<longrightarrow> P n)"
    (is "?L \<longleftrightarrow> ?R")
  proof
    assume L: ?L
    show ?R
    proof (intro allI impI)
      fix p n assume "(p, n) \<in> set (named_modules (Module k a ps cs))"
      then consider "p = []" "n = Module k a ps cs"
        | m c q' where "(m, c) \<in> set cs" "(q', n) \<in> set (named_modules c)"
        unfolding named_modules_mem by auto
      then show "P n"
      proof cases
        case 1
        with L show ?thesis by simp
      next
        case 2
        with L show ?thesis by simp
      qed
    qed
  next
    assume R: ?R
    have "P (Module k a ps cs)"
      using R named_modules_mem[of "[]" "Module k a ps cs" k a ps cs] by simp
    moreover have "P x" if "(n, c) \<in> set cs" "(p, x) \<in> set (named_modules c)" for n c p x
    proof -
      have "(n # p, x) \<in> set (named_modules (Module k a ps cs))"
        unfolding named_modules_mem using that by auto
      with R show ?thesis by simp
    qed
    ultimately show ?L by simp
  qed
  finally show ?case .
qed

lemma map_of_update_child:
  "map_of (update_child n f cs) k = (if k = n then map_option f (map_of cs n) else map_of cs k)"
  by (induction cs) auto

lemma update_child_fst: "map fst (update_child n f cs) = map fst cs"
  by (induction cs) auto

lemma update_child_mem:
  "(k, c') \<in> set (update_child n f cs) \<Longrightarrow> \<exists>c. (k, c) \<in> set cs \<and> (c' = c \<or> c' = f c)"
proof (induction cs)
  case Nil
  then show ?case by simp
next
  case (Cons a cs)
  obtain k0 c0 where a: "a = (k0, c0)" by (cases a)
  show ?case
  proof (cases "k0 = n")
    case True
    with Cons.prems a have "(k, c') = (k0, f c0) \<or> (k, c') \<in> set cs" by simp
    then show ?thesis using a by auto
  next
    case False
    with Cons.prems a have "(k, c') = (k0, c0) \<or> (k, c') \<in> set (update_child n f cs)" by simp
    then show ?thesis using a Cons.IH by auto
  qed
qed

lemma params_only_init_constant: "params_only (init_constant n v)"
  by (simp add: params_only_def init_constant_def)

lemma params_only_init_normal: "params_only (init_normal g n)"
  by (simp add: params_only_def init_normal_def)

lemma params_only_comp: "params_only f \<Longrightarrow> params_only h \<Longrightarrow> params_only (\<lambda>m. f (h m))"
  by (simp add: params_only_def)

lemma kind_update_at: "params_only f \<Longrightarrow> kind (update_at p f m) = kind m"
  by (cases p) (simp_all add: params_only_def)

lemma attrs_update_at: "params_only f \<Longrightarrow> attrs (update_at p f m) = attrs m"
  by (cases p) (simp_all add: params_only_def)

text \<open>
  A property of single modules that a parameter update \<open>f\<close> keeps holds of every module
  of the tree after an in-place update by \<open>f\<close>, if it held before.
\<close>

lemma tree_all_update_at:
  assumes f: "\<And>m. P m \<Longrightarrow> P (f m)" "\<And>m. children (f m) = children m"
    and loc: "\<And>k a ps cs cs'. P (Module k a ps cs) \<Longrightarrow> P (Module k a ps cs')"
  shows "tree_all P m \<Longrightarrow> tree_all P (update_at p f m)"
proof (induction p arbitrary: m)
  case Nil
  obtain k a ps cs where m: "m = Module k a ps cs" by (cases m)
  obtain k' a' ps' cs' where fm: "f m = Module k' a' ps' cs'" by (cases "f m")
  have "cs' = cs" using f(2)[of m] m fm by simp
  moreover have "P (f m)" using Nil f(1) m by simp
  ultimately show ?case using Nil m fm by simp
next
  case (Cons n p)
  obtain k a ps cs where m: "m = Module k a ps cs" by (cases m)
  have P: "P (Module k a ps cs)" and cs: "\<And>x c. (x, c) \<in> set cs \<Longrightarrow> tree_all P c"
    using Cons.prems m by (auto simp: list_all_iff)
  have "tree_all P c'" if "(x, c') \<in> set (update_child n (update_at p f) cs)" for x c'
  proof -
    from update_child_mem[OF that] obtain c where c: "(x, c) \<in> set cs"
      and c': "c' = c \<or> c' = update_at p f c" by auto
    from cs[OF c] Cons.IH[of c] c' show ?thesis by auto
  qed
  then have "list_all (\<lambda>(n, c). tree_all P c) (update_child n (update_at p f) cs)"
    by (auto simp: list_all_iff)
  moreover have "P (Module k a ps (update_child n (update_at p f) cs))"
    using loc[OF P] .
  ultimately show ?case using m by simp
qed

lemma fold_invariant:
  "P s \<Longrightarrow> (\<And>x s. x \<in> set xs \<Longrightarrow> P s \<Longrightarrow> P (h x s)) \<Longrightarrow> P (fold h xs s)"
  by (induction xs arbitrary: s) auto

subsection \<open>Classes and trainable parameters of the constructed modules\<close>

lemma numbered_mem: "(n, c) \<in> set (numbered ms) \<Longrightarrow> c \<in> set ms"
  unfolding numbered_def by (rule set_zip_rightD)

lemma tree_all_Sequential:
  assumes "P (Module Sequential [] [] (numbered ms))" "\<And>c. c \<in> set ms \<Longrightarrow> tree_all P c"
  shows "tree_all P (Sequential_init (numbered ms))"
proof -
  have "tree_all P c" if "(n, c) \<in> set (numbered ms)" for n c
    using assms(2) numbered_mem[OF that] .
  then have "list_all (\<lambda>(n, c). tree_all P c) (numbered ms)"
    by (auto simp: list_all_iff)
  with assms(1) show ?thesis by (simp add: Sequential_init_def)
qed

lemma ok_Sequential: "Sequential \<in> K \<Longrightarrow> ok K (Module Sequential [] [] cs)"
  by (simp add: ok_def)

lemma ok_Linear: "Linear \<in> K \<Longrightarrow> tree_all (ok K) (Linear_init g i n)"
  by (simp add: Linear_init_def ok_def drawn_def Parameter_def)

lemma ok_Conv2d: "Conv2d \<in> K \<Longrightarrow> tree_all (ok K) (Conv2d_init g i n k s p)"
  by (simp add: Conv2d_init_def ok_def drawn_def Parameter_def)

lemma ok_BatchNorm2d: "BatchNorm2d \<in> K \<Longrightarrow> tree_all (ok K) (BatchNorm2d_init n)"
  by (simp add: BatchNorm2d_init_def ok_def Parameter_def)

lemma ok_LayerNorm: "LayerNorm \<in> K \<Longrightarrow> tree_all (ok K) (LayerNorm_init n)"
  by (simp add: LayerNorm_init_def ok_def Parameter_def)

lemma ok_plain: "k \<in> K \<Longrightarrow> tree_all (ok K) (plain k)"
  by (simp add: plain_def ok_def)

lemma ok_AvgPool2d: "AvgPool2d \<in> K \<Longrightarrow> tree_all (ok K) (AvgPool2d_init n)"
  by (simp add: AvgPool2d_init_def ok_def)

lemma ok_Bottleneck: "tree_all (ok resnet_kinds) (Bottleneck_init g i p s)"
proof -
  have K: "Conv2d \<in> resnet_kinds" "BatchNorm2d \<in> resnet_kinds" "ReLU \<in> resnet_kinds"
    "AvgPool2d \<in> resnet_kinds" "Identity \<in> resnet_kinds" "Sequential \<in> resnet_kinds"
    "Bottleneck \<in> resnet_kinds"
    by (simp_all add: resnet_kinds_def)
  show ?thesis
    unfolding Bottleneck_init_def Sequential_init_def
    by (simp add: ok_Conv2d[OF K(1)] ok_BatchNorm2d[OF K(2)] ok_plain[OF K(3)] ok_AvgPool2d[OF K(4)]
        ok_plain[OF K(5)] ok_Sequential[OF K(6)]) (simp add: ok_def K)
qed

lemma ok_make_layer: "tree_all (ok resnet_kinds) (make_layer g i p b s)"
  unfolding make_layer_def
proof (rule tree_all_Sequential)
  show "ok resnet_kinds (Module Sequential [] [] (numbered (Bottleneck_init (sub g ''0'') i p s #
        map (\<lambda>i. Bottleneck_init (sub g (str_nat i)) (p * 4) p 1) [1..<b])))"
    by (simp add: ok_def resnet_kinds_def)
next
  fix c assume "c \<in> set (Bottleneck_init (sub g ''0'') i p s #
        map (\<lambda>i. Bottleneck_init (sub g (str_nat i)) (p * 4) p 1) [1..<b])"
  then show "tree_all (ok resnet_kinds) c"
    using ok_Bottleneck by auto
qed

lemma ok_AttentionPool2d: "tree_all (ok resnet_kinds) (AttentionPool2d_init g s e h d)"
proof -
  have K: "Linear \<in> resnet_kinds" by (simp add: resnet_kinds_def)
  show ?thesis
    unfolding AttentionPool2d_init_def
    by (simp add: ok_Linear[OF K]) (simp add: ok_def drawn_def Parameter_def resnet_kinds_def)
qed

lemma ok_ModifiedResNet:
  assumes "ModifiedResNet_init g layers d h r w = Inr m"
  shows "tree_all (ok resnet_kinds) m"
proof -
  have K: "Conv2d \<in> resnet_kinds" "BatchNorm2d \<in> resnet_kinds" "ReLU \<in> resnet_kinds"
    "AvgPool2d \<in> resnet_kinds"
    by (simp_all add: resnet_kinds_def)
  from assms obtain l0 l1 l2 l3 where m: "m = Module ModifiedResNet
       [(''output_dim'', Int_attr d), (''input_resolution'', Int_attr r),
        (''_inplanes'', Int_attr (w * 8 * 4))]
       []
       [(''conv1'', Conv2d_init (sub g ''conv1'') 3 (w div 2) 3 2 1),
        (''bn1'', BatchNorm2d_init (w div 2)),
        (''relu1'', plain ReLU),
        (''conv2'', Conv2d_init (sub g ''conv2'') (w div 2) (w div 2) 3 1 1),
        (''bn2'', BatchNorm2d_init (w div 2)),
        (''relu2'', plain ReLU),
        (''conv3'', Conv2d_init (sub g ''conv3'') (w div 2) w 3 1 1),
        (''bn3'', BatchNorm2d_init w),
        (''relu3'', plain ReLU),
        (''avgpool'', AvgPool2d_init 2),
        (''layer1'', make_layer (sub g ''layer1'') w w l0 1),
        (''layer2'', make_layer (sub g ''layer2'') (w * 4) (w * 2) l1 2),
        (''layer3'', make_layer (sub g ''layer3'') (w * 2 * 4) (w * 4) l2 2),
        (''layer4'', make_layer (sub g ''layer4'') (w * 4 * 4) (w * 8) l3 2),
        (''attnpool'', AttentionPool2d_init (sub g ''attnpool'') (r div 32)
                         (w * 32) h d)]"
    unfolding ModifiedResNet_init_def by (auto simp: seq_Inr_iff)
  show ?thesis
    unfolding m
    by (simp add: ok_Conv2d[OF K(1)] ok_BatchNorm2d[OF K(2)] ok_plain[OF K(3)] ok_AvgPool2d[OF K(4)]
        ok_make_layer ok_AttentionPool2d) (simp add: ok_def resnet_kinds_def)
qed

text \<open>In-place initialisation keeps the class and the flags of every module.\<close>

lemma ok_init_constant: "ok K m \<Longrightarrow> ok K (init_constant n v m)"
  by (auto simp: ok_def init_constant_def list_all_iff)

lemma ok_init_normal: "ok K m \<Longrightarrow> ok K (init_normal g n m)"
  by (auto simp: ok_def init_normal_def list_all_iff)

lemma ok_children: "ok K (Module k a ps cs) \<Longrightarrow> ok K (Module k a ps cs')"
  by (simp add: ok_def)

lemma ok_update_at:
  assumes "tree_all (ok K) m" "\<And>x. ok K x \<Longrightarrow> ok K (f x)" "\<And>x. children (f x) = children x"
  shows "tree_all (ok K) (update_at p f m)"
proof (rule tree_all_update_at[where P = "ok K"])
  show "ok K (f x)" if "ok K x" for x using that by (rule assms(2))
  show "children (f x) = children x" for x by (rule assms(3))
  show "ok K (Module k a ps cs')" if "ok K (Module k a ps cs)" for k a ps cs cs'
    using that by (rule ok_children)
  show "tree_all (ok K) m" by fact
qed

lemma ok_update_constant:
  "tree_all (ok K) m \<Longrightarrow> tree_all (ok K) (update_at p (init_constant n v) m)"
  by (rule ok_update_at) (simp_all add: ok_init_constant, simp add: init_constant_def)

lemma ok_update_zero_linear:
  "tree_all (ok K) m \<Longrightarrow> tree_all (ok K) (update_at p zero_linear m)"
  by (rule ok_update_at)
     (simp_all add: ok_init_constant zero_linear_def, simp add: init_constant_def)

lemma ok_update_normal:
  "tree_all (ok K) m \<Longrightarrow> tree_all (ok K) (update_at p (init_normal g n) m)"
  by (rule ok_update_at) (simp_all add: ok_init_normal, simp add: init_normal_def)

lemma ok_zero_bn3: "tree_all (ok K) m \<Longrightarrow> tree_all (ok K) (zero_bn3 layer m)"
proof -
  assume m: "tree_all (ok K) m"
  show ?thesis
  proof (cases "map_of (children m) layer")
    case None
    with m show ?thesis by (simp add: zero_bn3_def)
  next
    case (Some blk)
    have inner: "tree_all (ok K) (fold (\<lambda>(n, _) s. if endswith (dotted (p @ [n])) ''bn3.weight''
                                    then update_at (layer # p) (init_constant n 0) s else s) ps s)"
      if "tree_all (ok K) s" for p and ps :: "(string \<times> param) list" and s
      using that by (rule fold_invariant) (auto simp: ok_update_constant simp del: update_at.simps)
    have "tree_all (ok K) (fold (\<lambda>(p, m) s.
                  fold (\<lambda>(n, _) s. if endswith (dotted (p @ [n])) ''bn3.weight''
                                    then update_at (layer # p) (init_constant n 0) s else s)
                       (params m) s) (named_modules blk) m)"
      using m by (rule fold_invariant) (auto simp: inner)
    with Some show ?thesis by (simp add: zero_bn3_def)
  qed
qed

lemma ok_initialize_parameters:
  assumes "tree_all (ok K) m"
  shows "tree_all (ok K) (initialize_parameters g m)"
proof -
  have "tree_all (ok K) (fold (\<lambda>n. update_at [''attnpool'', n]
           (init_normal (sub (sub g ''attnpool'') n) ''weight'')) ns m)" for ns
    using assms by (rule fold_invariant) (simp add: ok_update_normal del: update_at.simps)
  then have "tree_all (ok K) (fold zero_bn3 ls (fold (\<lambda>n. update_at [''attnpool'', n]
           (init_normal (sub (sub g ''attnpool'') n) ''weight'')) ns m))" for ns ls
    by (rule fold_invariant) (simp add: ok_zero_bn3)
  with assms show ?thesis
    unfolding initialize_parameters_def by (simp only: split: if_split) simp
qed

lemma ok_MultiheadAttention:
  assumes "MultiheadAttention_init g e h = Inr m"
  shows "tree_all (ok vit_kinds) m"
proof -
  from assms have "h \<noteq> 0" "e mod h = 0"
    unfolding MultiheadAttention_init_def by (auto split: if_splits)
  with assms show ?thesis
    unfolding MultiheadAttention_init_def
    by (auto simp: ok_def drawn_def Parameter_def vit_kinds_def)
qed

lemma ok_Adapter: "tree_all (ok vit_kinds) (Adapter_init g d s)"
proof -
  have K: "Linear \<in> vit_kinds" "QuickGELU \<in> vit_kinds" by (simp_all add: vit_kinds_def)
  show ?thesis
    unfolding Adapter_init_def Sequential_init_def
    by (simp add: ok_Linear[OF K(1)] ok_plain[OF K(2)]) (simp add: ok_def vit_kinds_def)
qed

lemma ok_ResidualAttentionBlock:
  assumes "ResidualAttentionBlock_init g d h c = Inr m"
  shows "tree_all (ok vit_kinds) m"
proof -
  have K: "Linear \<in> vit_kinds" "QuickGELU \<in> vit_kinds" "LayerNorm \<in> vit_kinds"
    by (simp_all add: vit_kinds_def)
  from assms obtain attn where attn: "MultiheadAttention_init (sub g ''attn'') d h = Inr attn"
    and m: "m = Module ResidualAttentionBlock
       [(''attn_mask'', None_attr), (''prefix_length'', Int_attr 8),
        (''checkpointing'', Bool_attr c)]
       [(''prefix_embedding_k'', drawn g ''prefix_embedding_k'' [8, 1, d]),
        (''prefix_embedding_v'', drawn g ''prefix_embedding_v'' [8, 1, d])]
       [(''attn'', attn),
        (''ln_1'', LayerNorm_init d),
        (''mlp'', Sequential_init
           [(''c_fc'', Linear_init (sub (sub g ''mlp'') ''c_fc'') d (d * 4)),
            (''gelu'', plain QuickGELU),
            (''c_proj'', Linear_init (sub (sub g ''mlp'') ''c_proj'') (d * 4) d)]),
        (''ln_2'', LayerNorm_init d),
        (''S_Adapter'', Adapter_init (sub g ''S_Adapter'') d False),
        (''MLP_Adapter'', Adapter_init (sub g ''MLP_Adapter'') d False)]"
    unfolding ResidualAttentionBlock_init_def by (auto simp: seq_Inr_iff split: if_splits)
  show ?thesis
    unfolding m Sequential_init_def
    by (simp add: ok_MultiheadAttention[OF attn] ok_Linear[OF K(1)] ok_plain[OF K(2)]
        ok_LayerNorm[OF K(3)] ok_Adapter)
       (simp add: ok_def vit_kinds_def drawn_def Parameter_def)
qed

lemma ok_AggregationBlock:
  assumes "AggregationBlock_init g d h = Inr m"
  shows "tree_all (ok vit_kinds) m"
proof -
  have K: "Linear \<in> vit_kinds" "QuickGELU \<in> vit_kinds" "LayerNorm \<in> vit_kinds"
    by (simp_all add: vit_kinds_def)
  from assms obtain attn where attn: "MultiheadAttention_init (sub g ''attn'') d h = Inr attn"
    and m: "m = Module AggregationBlock [(''attn_mask'', None_attr)] []
       [(''attn'', attn),
        (''ln_1'', LayerNorm_init d),
        (''mlp'', Sequential_init
           [(''c_fc'', Linear_init (sub (sub g ''mlp'') ''c_fc'') d (d * 1)),
            (''gelu'', plain QuickGELU),
            (''c_proj'', Linear_init (sub (sub g ''mlp'') ''c_proj'') (d * 1) d)]),
        (''ln_2'', LayerNorm_init d)]"
    unfolding AggregationBlock_init_def by (auto simp: seq_Inr_iff)
  show ?thesis
    unfolding m Sequential_init_def
    by (simp add: ok_MultiheadAttention[OF attn] ok_Linear[OF K(1)] ok_plain[OF K(2)]
        ok_LayerNorm[OF K(3)])
       (simp add: ok_def vit_kinds_def)
qed

lemma ok_TemporalAggregationBlock: "tree_all (ok vit_kinds) (TemporalAggregationBlock_init d h)"
proof -
  have K: "Correlation_Module \<in> vit_kinds" "LayerNorm \<in> vit_kinds"
    by (simp_all add: vit_kinds_def)
  show ?thesis
    unfolding TemporalAggregationBlock_init_def UnfoldTemporalWindows_init_def
    by (simp add: ok_plain[OF K(1)] ok_LayerNorm[OF K(2)]) (simp add: ok_def vit_kinds_def)
qed

lemma mapM_all:
  assumes "mapM f xs = Inr ys" "\<And>x y. f x = Inr y \<Longrightarrow> P y"
  shows "\<forall>y \<in> set ys. P y"
proof -
  from mapM_Inr[OF assms(1)] have len: "length ys = length xs"
    and nth: "\<And>i. i < length xs \<Longrightarrow> f (xs ! i) = Inr (ys ! i)" by auto
  show ?thesis
  proof
    fix y assume "y \<in> set ys"
    then obtain i where "i < length ys" "y = ys ! i" by (auto simp: in_set_conv_nth)
    with len nth[of i] assms(2) show "P y" by auto
  qed
qed

lemma Transformer_init_Inr:
  assumes "Transformer_init g w l h = Inr m"
  obtains resblocks aggblocks where
    "mapM (\<lambda>i. ResidualAttentionBlock_init (sub (sub g ''resblocks'') (str_nat i)) w h True)
       [0..<l] = Inr resblocks"
    "mapM (\<lambda>i. AggregationBlock_init (sub (sub g ''aggblocks'') (str_nat i)) w h)
       [0..<l] = Inr aggblocks"
    "m = Module Transformer
       [(''width'', Int_attr w), (''layers'', Int_attr l)]
       [(''query'', drawn g ''query'' [1, 1, w]),
        (''temporal_ada_weight'', Parameter (zeros [1]))]
       [(''resblocks'', Sequential_init (numbered resblocks)),
        (''aggblocks'', Sequential_init (numbered aggblocks)),
        (''taggblocks'', TemporalAggregationBlock_init w h)]"
  using assms unfolding Transformer_init_def by (auto simp: seq_Inr_iff)

lemma ok_Transformer:
  assumes "Transformer_init g w l h = Inr m"
  shows "tree_all (ok vit_kinds) m"
proof -
  from assms obtain resblocks aggblocks where
    r: "mapM (\<lambda>i. ResidualAttentionBlock_init (sub (sub g ''resblocks'') (str_nat i)) w h True)
       [0..<l] = Inr resblocks" and
    a: "mapM (\<lambda>i. AggregationBlock_init (sub (sub g ''aggblocks'') (str_nat i)) w h)
       [0..<l] = Inr aggblocks" and
    m: "m = Module Transformer
       [(''width'', Int_attr w), (''layers'', Int_attr l)]
       [(''query'', drawn g ''query'' [1, 1, w]),
        (''temporal_ada_weight'', Parameter (zeros [1]))]
       [(''resblocks'', Sequential_init (numbered resblocks)),
        (''aggblocks'', Sequential_init (numbered aggblocks)),
        (''taggblocks'', TemporalAggregationBlock_init w h)]"
    by (rule Transformer_init_Inr)
  have S: "Sequential \<in> vit_kinds" by (simp add: vit_kinds_def)
  have "\<forall>c \<in> set resblocks. tree_all (ok vit_kinds) c"
    using r by (rule mapM_all) (rule ok_ResidualAttentionBlock)
  then have R: "tree_all (ok vit_kinds) (Sequential_init (numbered resblocks))"
    by (intro tree_all_Sequential ok_Sequential[OF S]) simp
  have "\<forall>c \<in> set aggblocks. tree_all (ok vit_kinds) c"
    using a by (rule mapM_all) (rule ok_AggregationBlock)
  then have A: "tree_all (ok vit_kinds) (Sequential_init (numbered aggblocks))"
    by (intro tree_all_Sequential ok_Sequential[OF S]) simp
  show ?thesis
    unfolding m
    by (simp add: R A ok_TemporalAggregationBlock)
       (simp add: ok_def vit_kinds_def drawn_def Parameter_def)
qed

lemma ok_zero_c_out: "tree_all (ok K) s \<Longrightarrow> tree_all (ok K) (zero_c_out p m s)"
  unfolding zero_c_out_def
  by (rule fold_invariant) (auto simp: ok_update_zero_linear simp del: update_at.simps)

lemma ok_initialize_adapters:
  "tree_all (ok K) s \<Longrightarrow> tree_all (ok K) (initialize_adapters tag s)"
proof -
  assume s: "tree_all (ok K) s"
  have "tree_all (ok K) (fold (\<lambda>(p, m) s. if contains (dotted p) tag then zero_c_out p m s else s)
               xs s)" for xs
    using s by (rule fold_invariant) (auto simp: ok_zero_c_out)
  with s show ?thesis
    unfolding initialize_adapters_def by (simp split: option.splits)
qed

lemma ok_VisionTransformer:
  assumes "VisionTransformer_init g r p w l h d = Inr m"
  shows "tree_all (ok vit_kinds) m"
proof -
  have K: "Conv2d \<in> vit_kinds" "LayerNorm \<in> vit_kinds" by (simp_all add: vit_kinds_def)
  from assms obtain tr where tr: "Transformer_init (sub g ''transformer'') w l h = Inr tr"
    and m: "m = initialize_adapters ''MLP_Adapter'' (initialize_adapters ''S_Adapter''
          (Module VisionTransformer
            [(''input_resolution'', Int_attr r), (''output_dim'', Int_attr d)]
            [(''class_embedding'', drawn g ''class_embedding'' [w]),
             (''positional_embedding'',
                drawn g ''positional_embedding'' [(r div p) ^ 2 + 1, w]),
             (''proj'', drawn g ''proj'' [w, d]),
             (''ada_weight'', Parameter (mk [2] (\<lambda>_. 1 / 2)))]
            [(''conv1'', Conv2d_init (sub g ''conv1'') 3 w p p 0),
             (''ln_pre'', LayerNorm_init w),
             (''transformer'', tr),
             (''ln_post'', LayerNorm_init w),
             (''ln_post_cls'', LayerNorm_init w)]))"
    unfolding VisionTransformer_init_def by (auto simp: seq_Inr_iff split: if_splits)
  show ?thesis
    unfolding m
    by (intro ok_initialize_adapters)
       (simp add: ok_Transformer[OF tr] ok_Conv2d[OF K(1)] ok_LayerNorm[OF K(2)],
        simp add: ok_def vit_kinds_def drawn_def Parameter_def)
qed

text \<open>Every module of a constructed CLIP has trainable parameters only, and is of a class
  of its tower's list.\<close>

lemma ok_CLIP:
  assumes "CLIP_init g e r vl w p = Inr m"
  shows "tree_all (ok (case vl of Layers_tuple _ \<Rightarrow> resnet_kinds | Layers_int _ \<Rightarrow> vit_kinds)) m"
proof (cases vl)
  case (Layers_int l)
  with assms obtain ps v where v: "VisionTransformer_init (sub g ''visual'') r ps w l (w div 64) e = Inr v"
    and m: "m = Module CLIP [] [] [(''visual'', initialize_parameters (sub g ''visual'') v)]"
    unfolding CLIP_init_def by (auto simp: seq_Inr_iff split: option.splits)
  show ?thesis
    unfolding m Layers_int
    by (simp add: ok_initialize_parameters[OF ok_VisionTransformer[OF v]])
       (simp add: ok_def vit_kinds_def)
next
  case (Layers_tuple ls)
  with assms obtain v where v: "ModifiedResNet_init (sub g ''visual'') ls e (w * 32 div 64) r w = Inr v"
    and m: "m = Module CLIP [] [] [(''visual'', initialize_parameters (sub g ''visual'') v)]"
    unfolding CLIP_init_def by (auto simp: seq_Inr_iff)
  show ?thesis
    unfolding m Layers_tuple
    by (simp add: ok_initialize_parameters[OF ok_ModifiedResNet[OF v]])
       (simp add: ok_def resnet_kinds_def)
qed

subsection \<open>Paths into a module tree\<close>


lemma node_at_mem: "node_at p m = Some n \<Longrightarrow> (p, n) \<in> set (named_modules m)"
proof (induction p arbitrary: m)
  case Nil
  obtain k a ps cs where m: "m = Module k a ps cs" by (cases m)
  from Nil have n: "n = m" by simp
  show ?case unfolding n m by simp
next
  case (Cons x p)
  obtain k a ps cs where m: "m = Module k a ps cs" by (cases m)
  from Cons.prems m obtain c where c: "map_of cs x = Some c" and n: "node_at p c = Some n"
    by (auto split: option.splits)
  from c have "(x, c) \<in> set cs" by (rule map_of_SomeD)
  moreover from Cons.IH[OF n] have "(p, n) \<in> set (named_modules c)" .
  ultimately show ?case unfolding m named_modules_mem by auto
qed


text \<open>
  An update at path \<open>p\<close> that keeps children changes the module found at \<open>q\<close> only if
  \<open>q\<close> leads to the updated module or to one above it.
\<close>

lemma node_at_update_other:
  assumes "\<And>x. children (f x) = children x"
  shows "\<not> prefix q p \<Longrightarrow> node_at q (update_at p f m) = node_at q m"
proof (induction q arbitrary: p m)
  case Nil
  then show ?case by simp
next
  case (Cons x q)
  show ?case
  proof (cases p)
    case Nil
    then show ?thesis by (simp add: assms)
  next
    case (Cons y p')
    show ?thesis
    proof (cases "x = y")
      case True
      with Cons.prems Cons have np: "\<not> prefix q p'" by simp
      show ?thesis
        using Cons True Cons.IH[OF np]
        by (auto simp: map_of_update_child split: option.splits)
    next
      case False
      then show ?thesis using Cons by (simp add: map_of_update_child)
    qed
  qed
qed

lemma node_at_update_below:
  "node_at q (update_at (q @ r) f m) = map_option (update_at r f) (node_at q m)"
proof (induction q arbitrary: m)
  case Nil
  then show ?case by simp
next
  case (Cons x q)
  then show ?case by (auto simp: map_of_update_child split: option.splits)
qed


text \<open>Class and attributes at a path survive every parameter update.\<close>

lemma node_at_update_sig:
  assumes "params_only f"
  shows "map_option (\<lambda>n. (kind n, attrs n)) (node_at q (update_at p f m))
       = map_option (\<lambda>n. (kind n, attrs n)) (node_at q m)"
proof (cases "prefix q p")
  case True
  then obtain r where p: "p = q @ r" by (auto simp: prefix_def)
  show ?thesis
    unfolding p node_at_update_below
    by (cases "node_at q m") (simp_all add: kind_update_at[OF assms] attrs_update_at[OF assms])
next
  case False
  have "\<And>x. children (f x) = children x" using assms by (simp add: params_only_def)
  from node_at_update_other[OF this False] show ?thesis by simp
qed

subsection \<open>The names of a Sequential's children\<close>

lemma digit_val_digit: "d < 10 \<Longrightarrow> digit_val (''0123456789'' ! d) = d"
proof -
  assume "d < 10"
  then have "d = 0 \<or> d = 1 \<or> d = 2 \<or> d = 3 \<or> d = 4 \<or> d = 5 \<or> d = 6 \<or> d = 7
    \<or> d = 8 \<or> d = 9" by arith
  then show ?thesis by (elim disjE) (simp_all add: digit_val_def)
qed

lemma str_nat_value: "foldl (\<lambda>acc c. acc * 10 + digit_val c) 0 (str_nat n) = n"
proof (induction n rule: str_nat.induct)
  case (1 n)
  show ?case
  proof (cases "n < 10")
    case True
    then show ?thesis by (subst str_nat.simps) (simp add: digit_val_digit)
  next
    case False
    with 1 have "foldl (\<lambda>acc c. acc * 10 + digit_val c) 0 (str_nat (n div 10)) = n div 10"
      by simp
    with False show ?thesis by (subst str_nat.simps) (simp add: digit_val_digit)
  qed
qed

lemma str_nat_inj: "str_nat i = str_nat j \<Longrightarrow> i = j"
proof -
  assume e: "str_nat i = str_nat j"
  have "i = foldl (\<lambda>acc c. acc * 10 + digit_val c) 0 (str_nat i)"
    by (simp only: str_nat_value)
  also have "\<dots> = foldl (\<lambda>acc c. acc * 10 + digit_val c) 0 (str_nat j)"
    by (simp only: e)
  also have "\<dots> = j"
    by (simp only: str_nat_value)
  finally show ?thesis .
qed

lemma map_of_numbered: "i < length ms \<Longrightarrow> map_of (numbered ms) (str_nat i) = Some (ms ! i)"
proof -
  assume i: "i < length ms"
  have d: "distinct (map str_nat [0..<length ms])"
    by (simp add: distinct_map inj_on_def) (use str_nat_inj in blast)
  have "(str_nat i, ms ! i) \<in> set (zip (map str_nat [0..<length ms]) ms)"
    using i by (auto simp: set_zip intro!: exI[of _ i])
  moreover have "distinct (map fst (zip (map str_nat [0..<length ms]) ms))"
    using d by simp
  ultimately show ?thesis
    unfolding numbered_def by (rule map_of_is_SomeI[rotated])
qed

subsection \<open>When construction succeeds\<close>

lemma MultiheadAttention_init_ok:
  "h \<noteq> 0 \<Longrightarrow> e mod h = 0 \<Longrightarrow> \<exists>m. MultiheadAttention_init g e h = Inr m"
  by (simp add: MultiheadAttention_init_def)

lemma ResidualAttentionBlock_init_ok:
  assumes "d \<noteq> 0" "h \<noteq> 0" "d mod h = 0"
  shows "\<exists>m. ResidualAttentionBlock_init g d h c = Inr m"
proof -
  from MultiheadAttention_init_ok[OF assms(2,3)] obtain a
    where "MultiheadAttention_init (sub g ''attn'') d h = Inr a" by blast
  with assms(1) show ?thesis by (simp add: ResidualAttentionBlock_init_def)
qed

lemma AggregationBlock_init_ok:
  assumes "h \<noteq> 0" "d mod h = 0"
  shows "\<exists>m. AggregationBlock_init g d h = Inr m"
proof -
  from MultiheadAttention_init_ok[OF assms] obtain a
    where "MultiheadAttention_init (sub g ''attn'') d h = Inr a" by blast
  then show ?thesis by (simp add: AggregationBlock_init_def)
qed

lemma Transformer_init_ok:
  assumes "w \<noteq> 0" "h \<noteq> 0" "w mod h = 0"
  shows "\<exists>m. Transformer_init g w l h = Inr m"
proof -
  obtain rs where "mapM (\<lambda>i. ResidualAttentionBlock_init (sub (sub g ''resblocks'') (str_nat i))
                       w h True) [0..<l] = Inr rs"
    using mapM_ok[of "[0..<l]" "\<lambda>i. ResidualAttentionBlock_init (sub (sub g ''resblocks'') (str_nat i))
                       w h True"] ResidualAttentionBlock_init_ok[OF assms] by blast
  moreover obtain as where "mapM (\<lambda>i. AggregationBlock_init (sub (sub g ''aggblocks'') (str_nat i))
                       w h) [0..<l] = Inr as"
    using mapM_ok[of "[0..<l]" "\<lambda>i. AggregationBlock_init (sub (sub g ''aggblocks'') (str_nat i))
                       w h"] AggregationBlock_init_ok[OF assms(2,3)] by blast
  ultimately show ?thesis by (simp add: Transformer_init_def)
qed

lemma VisionTransformer_init_ok:
  assumes "w \<noteq> 0" "p \<noteq> 0" "h \<noteq> 0" "w mod h = 0"
  shows "\<exists>m. VisionTransformer_init g r p w l h d = Inr m"
proof -
  from Transformer_init_ok[OF assms(1,3,4)] obtain tr
    where "Transformer_init (sub g ''transformer'') w l h = Inr tr" by blast
  with assms(1,2) show ?thesis by (simp add: VisionTransformer_init_def)
qed

lemma CLIP_init_vit_ok:
  assumes "w \<noteq> 0" "p \<noteq> 0" "w div 64 \<noteq> 0" "w mod (w div 64) = 0"
  shows "\<exists>m. CLIP_init g e r (Layers_int l) w (Some p) = Inr m"
proof -
  from VisionTransformer_init_ok[OF assms] obtain v
    where "VisionTransformer_init (sub g ''visual'') r p w l (w div 64) e = Inr v" by blast
  then show ?thesis by (simp add: CLIP_init_def)
qed


subsection \<open>What the initialisation loops leave alone\<close>

lemma params_only_zero: "params_only zero_linear"
  by (simp add: params_only_def init_constant_def zero_linear_def)

lemma zero_c_out_invariant:
  assumes "P s" "\<And>q s. P s \<Longrightarrow> P (update_at (''transformer'' # q) zero_linear s)"
  shows "P (zero_c_out p m s)"
  unfolding zero_c_out_def using assms(1)
proof (rule fold_invariant)
  fix x s assume "P s"
  then show "P ((case x of (p2, m2) \<Rightarrow> \<lambda>s. if contains (dotted p2) ''c_out'' \<and> isinstance_Linear m2
             then update_at (''transformer'' # p @ p2) zero_linear s
             else s) s)"
    using assms(2) by (cases x) (simp del: update_at.simps)
qed

lemma initialize_adapters_invariant:
  assumes "P s" "\<And>q s. P s \<Longrightarrow> P (update_at (''transformer'' # q) zero_linear s)"
  shows "P (initialize_adapters tag s)"
proof (cases "map_of (children s) ''transformer''")
  case None
  with assms(1) show ?thesis by (simp add: initialize_adapters_def)
next
  case (Some tr)
  have "P (fold (\<lambda>(p, m) s. if contains (dotted p) tag then zero_c_out p m s else s)
               (named_modules tr) s)"
    using assms(1)
  proof (rule fold_invariant)
    fix x s assume "P s"
    then show "P ((case x of (p, m) \<Rightarrow> \<lambda>s. if contains (dotted p) tag then zero_c_out p m s else s) s)"
      using zero_c_out_invariant[of P, OF _ assms(2)] by (cases x) simp
  qed
  with Some show ?thesis by (simp add: initialize_adapters_def)
qed

lemma initialize_adapters_sig:
  "map_option (\<lambda>n. (kind n, attrs n)) (node_at q (initialize_adapters tag s))
     = map_option (\<lambda>n. (kind n, attrs n)) (node_at q s)"
  by (rule initialize_adapters_invariant[where P = "\<lambda>s'. map_option (\<lambda>n. (kind n, attrs n)) (node_at q s')
     = map_option (\<lambda>n. (kind n, attrs n)) (node_at q s)"])
     (simp_all add: node_at_update_sig[OF params_only_zero] del: update_at.simps)

lemma initialize_adapters_kind: "kind (initialize_adapters tag s) = kind s"
  using initialize_adapters_sig[of "[]" tag s] by simp

lemma initialize_adapters_other:
  assumes "q \<noteq> []" "hd q \<noteq> ''transformer''"
  shows "node_at q (initialize_adapters tag s) = node_at q s"
proof (rule initialize_adapters_invariant[where P = "\<lambda>s'. node_at q s' = node_at q s"])
  show "node_at q s = node_at q s" by simp
next
  fix p s' assume s': "node_at q s' = node_at q s"
  from assms have "\<not> prefix q (''transformer'' # p)" by (cases q) auto
  moreover have "\<And>x. children (zero_linear x) = children x"
    using params_only_zero by (simp add: params_only_def)
  ultimately show "node_at q (update_at (''transformer'' # p) zero_linear s') = node_at q s"
    using s' node_at_update_other[of zero_linear q "''transformer'' # p" s'] by simp
qed

subsection \<open>The shape of a constructed model\<close>

lemma VisionTransformer_init_Inr:
  assumes "VisionTransformer_init g r p w l h d = Inr m"
  obtains tr v0 where
    "Transformer_init (sub g ''transformer'') w l h = Inr tr"
    "kind v0 = VisionTransformer"
    "children v0 = [(''conv1'', Conv2d_init (sub g ''conv1'') 3 w p p 0),
             (''ln_pre'', LayerNorm_init w),
             (''transformer'', tr),
             (''ln_post'', LayerNorm_init w),
             (''ln_post_cls'', LayerNorm_init w)]"
    "params v0 = [(''class_embedding'', drawn g ''class_embedding'' [w]),
             (''positional_embedding'',
                drawn g ''positional_embedding'' [(r div p) ^ 2 + 1, w]),
             (''proj'', drawn g ''proj'' [w, d]),
             (''ada_weight'', Parameter (mk [2] (\<lambda>_. 1 / 2)))]"
    "m = initialize_adapters ''MLP_Adapter'' (initialize_adapters ''S_Adapter'' v0)"
    "w \<noteq> 0" "p \<noteq> 0"
proof -
  from assms have wp: "w \<noteq> 0" "p \<noteq> 0"
    unfolding VisionTransformer_init_def by (auto split: if_splits)
  define v0 where "v0 = Module VisionTransformer
            [(''input_resolution'', Int_attr r), (''output_dim'', Int_attr d)]
            [(''class_embedding'', drawn g ''class_embedding'' [w]),
             (''positional_embedding'',
                drawn g ''positional_embedding'' [(r div p) ^ 2 + 1, w]),
             (''proj'', drawn g ''proj'' [w, d]),
             (''ada_weight'', Parameter (mk [2] (\<lambda>_. 1 / 2)))]" for tr
  from wp assms obtain tr where tr: "Transformer_init (sub g ''transformer'') w l h = Inr tr"
    and m: "m = initialize_adapters ''MLP_Adapter'' (initialize_adapters ''S_Adapter''
          (v0 [(''conv1'', Conv2d_init (sub g ''conv1'') 3 w p p 0),
             (''ln_pre'', LayerNorm_init w),
             (''transformer'', tr),
             (''ln_post'', LayerNorm_init w),
             (''ln_post_cls'', LayerNorm_init w)]))"
    unfolding VisionTransformer_init_def v0_def by (auto simp: seq_Inr_iff)
  show thesis
    by (rule that[OF tr _ _ _ m wp]) (simp_all add: v0_def)
qed

lemma kind_VisionTransformer_init:
  assumes "VisionTransformer_init g r p w l h d = Inr m"
  shows "kind m = VisionTransformer"
  using assms by (rule VisionTransformer_init_Inr) (simp add: initialize_adapters_kind)




lemma CLIP_init_vit:
  assumes "CLIP_init g e r (Layers_int l) w p = Inr m"
  obtains ps v where "p = Some ps"
    "VisionTransformer_init (sub g ''visual'') r ps w l (w div 64) e = Inr v"
    "m = Module CLIP [] [] [(''visual'', v)]"
proof -
  from assms obtain ps v where p: "p = Some ps"
    and v: "VisionTransformer_init (sub g ''visual'') r ps w l (w div 64) e = Inr v"
    and m: "m = Module CLIP [] [] [(''visual'', initialize_parameters (sub g ''visual'') v)]"
    unfolding CLIP_init_def by (auto simp: seq_Inr_iff split: option.splits)
  have "initialize_parameters (sub g ''visual'') v = v"
    using kind_VisionTransformer_init[OF v] by (simp add: initialize_parameters_def)
  with p v m show ?thesis using that by simp
qed





lemma trainable_parameters:
  assumes "tree_all (ok K) m"
  shows "list_all (\<lambda>np. requires_grad (snd np)) (named_parameters m)"
proof -
  have "requires_grad prm" if "(p, n) \<in> set (named_modules m)" "(name, prm) \<in> set (params n)"
    for p n name prm
  proof -
    from assms that(1) have "ok K n" unfolding tree_all_named by simp
    with that(2) show ?thesis by (auto simp: ok_def list_all_iff)
  qed
  then show ?thesis
    unfolding named_parameters_def list_all_iff by auto
qed

lemma named_parameters_mem:
  "(p, n) \<in> set (named_modules m) \<Longrightarrow> (name, prm) \<in> set (params n) \<Longrightarrow>
   (dotted (p @ [name]), prm) \<in> set (named_parameters m)"
  unfolding named_parameters_def by force



text \<open>The blocks of a constructed transformer, found by their paths.\<close>

lemma Transformer_init_blocks:
  assumes "Transformer_init g w l h = Inr tr" "i < l"
  obtains rb ab where
    "ResidualAttentionBlock_init (sub (sub g ''resblocks'') (str_nat i)) w h True = Inr rb"
    "AggregationBlock_init (sub (sub g ''aggblocks'') (str_nat i)) w h = Inr ab"
    "node_at [''resblocks'', str_nat i] tr = Some rb"
    "node_at [''aggblocks'', str_nat i] tr = Some ab"
proof -
  from assms(1) obtain resblocks aggblocks where
    r: "mapM (\<lambda>i. ResidualAttentionBlock_init (sub (sub g ''resblocks'') (str_nat i)) w h True)
       [0..<l] = Inr resblocks" and
    a: "mapM (\<lambda>i. AggregationBlock_init (sub (sub g ''aggblocks'') (str_nat i)) w h)
       [0..<l] = Inr aggblocks" and
    m: "tr = Module Transformer
       [(''width'', Int_attr w), (''layers'', Int_attr l)]
       [(''query'', drawn g ''query'' [1, 1, w]),
        (''temporal_ada_weight'', Parameter (zeros [1]))]
       [(''resblocks'', Sequential_init (numbered resblocks)),
        (''aggblocks'', Sequential_init (numbered aggblocks)),
        (''taggblocks'', TemporalAggregationBlock_init w h)]"
    by (rule Transformer_init_Inr)
  from mapM_Inr[OF r] assms(2) have lr: "i < length resblocks"
    and ri: "ResidualAttentionBlock_init (sub (sub g ''resblocks'') (str_nat i)) w h True
               = Inr (resblocks ! i)" by auto
  from mapM_Inr[OF a] assms(2) have la: "i < length aggblocks"
    and ai: "AggregationBlock_init (sub (sub g ''aggblocks'') (str_nat i)) w h
               = Inr (aggblocks ! i)" by auto
  show thesis
    by (rule that[OF ri ai])
       (simp_all add: m Sequential_init_def map_of_numbered[OF lr] map_of_numbered[OF la])
qed



subsection \<open>Trainable parameters and the classes of the two towers\<close>

text \<open>
  C7 (as the code has it). The module freezes nothing: after construction every
  parameter of the model, pretrained backbone weights included, has
  \<^verbatim>\<open>requires_grad = True\<close>.
\<close>

theorem every_parameter_trainable:
  assumes "CLIP_init g e r vl w p = Inr m"
  shows "list_all (\<lambda>np. requires_grad (snd np)) (named_parameters m)"
  using ok_CLIP[OF assms] by (rule trainable_parameters)

theorem every_parameter_trainable_witness:
  "\<exists>m. CLIP_init (\<lambda>_ _. 0) 8 4 (Layers_int 1) 64 (Some 2) = Inr m
     \<and> list_all (\<lambda>np. requires_grad (snd np)) (named_parameters m)"
proof -
  obtain m where m: "CLIP_init (\<lambda>_ _. 0) 8 4 (Layers_int 1) 64 (Some 2) = Inr m"
    using CLIP_init_vit_ok[of 64 2 "\<lambda>_ _. 0" 8 4 1] by auto
  with every_parameter_trainable[OF m] show ?thesis by blast
qed

text \<open>
  The claim as stated fails: in the model built for width 64, patch size 2 and one
  layer, the patch-embedding convolution of the pretrained backbone is trainable.
\<close>

theorem backbone_weight_trainable:
  "\<exists>m prm. CLIP_init (\<lambda>_ _. 0) 8 4 (Layers_int 1) 64 (Some 2) = Inr m
     \<and> (''visual.conv1.weight'', prm) \<in> set (named_parameters m) \<and> requires_grad prm"
proof -
  obtain m where m: "CLIP_init (\<lambda>_ _. 0) 8 4 (Layers_int 1) 64 (Some 2) = Inr m"
    using CLIP_init_vit_ok[of 64 2 "\<lambda>_ _. 0" 8 4 1] by auto
  then obtain v where v: "VisionTransformer_init (sub (\<lambda>_ _. 0) ''visual'') 4 2 64 1 (64 div 64) 8 = Inr v"
    and mv: "m = Module CLIP [] [] [(''visual'', v)]"
    by (auto elim!: CLIP_init_vit)
  from v obtain tr v0 where
    c: "children v0 = [(''conv1'', Conv2d_init (sub (sub (\<lambda>_ _. 0) ''visual'') ''conv1'') 3 64 2 2 0),
             (''ln_pre'', LayerNorm_init 64),
             (''transformer'', tr),
             (''ln_post'', LayerNorm_init 64),
             (''ln_post_cls'', LayerNorm_init 64)]"
    and vm: "v = initialize_adapters ''MLP_Adapter'' (initialize_adapters ''S_Adapter'' v0)"
    by (rule VisionTransformer_init_Inr)
  let ?conv = "Conv2d_init (sub (sub (\<lambda>_ _. 0) ''visual'') ''conv1'') 3 64 2 2 0"
  have oth: "node_at [''conv1''] (initialize_adapters tag s) = node_at [''conv1''] s" for tag s
    by (rule initialize_adapters_other) simp_all
  have "node_at [''conv1''] v = node_at [''conv1''] v0"
    unfolding vm by (simp only: oth)
  with c mv have "node_at [''visual'', ''conv1''] m = Some ?conv" by simp
  then have "([''visual'', ''conv1''], ?conv) \<in> set (named_modules m)" by (rule node_at_mem)
  moreover have "(''weight'', drawn (sub (sub (\<lambda>_ _. 0) ''visual'') ''conv1'') ''weight'' [64, 3, 2, 2])
                   \<in> set (params ?conv)"
    by (simp add: Conv2d_init_def)
  ultimately have "(dotted ([''visual'', ''conv1''] @ [''weight'']),
                    drawn (sub (sub (\<lambda>_ _. 0) ''visual'') ''conv1'') ''weight'' [64, 3, 2, 2])
                   \<in> set (named_parameters m)"
    by (rule named_parameters_mem)
  moreover have "requires_grad (drawn (sub (sub (\<lambda>_ _. 0) ''visual'') ''conv1'') ''weight'' [64, 3, 2, 2])"
    by (simp add: drawn_def Parameter_def)
  ultimately show ?thesis using m by auto
qed




subsection \<open>build_model\<close>

lemma fold_del_not_visual:
  "fold (\<lambda>key sd. if \<not> contains key ''visual'' then delitem sd key else sd) ks sd
     = filter (\<lambda>kv. contains (fst kv) ''visual'' \<or> fst kv \<notin> set ks) sd"
proof (induction ks arbitrary: sd)
  case Nil
  then show ?case by simp
next
  case (Cons k ks)
  show ?case
    by (auto simp: Cons.IH delitem_def intro!: filter_cong)
qed

lemma fold_del_present:
  "\<forall>k \<in> set ks. \<not> contains k ''visual'' \<Longrightarrow>
   filter (\<lambda>kv. contains (fst kv) ''visual'')
     (fold (\<lambda>key sd. if has_key sd key then delitem sd key else sd) ks sd)
   = filter (\<lambda>kv. contains (fst kv) ''visual'') sd"
proof (induction ks arbitrary: sd)
  case Nil
  then show ?case by simp
next
  case (Cons k ks)
  have "filter (\<lambda>kv. contains (fst kv) ''visual'') (delitem sd k)
        = filter (\<lambda>kv. contains (fst kv) ''visual'') sd"
    using Cons.prems by (auto simp: delitem_def intro!: filter_cong)
  with Cons show ?case by simp
qed

lemma text_keys_not_visual:
  "\<forall>k \<in> set [''input_resolution'', ''context_length'', ''vocab_size'']. \<not> contains k ''visual''"
  by (simp add: contains_def sublist_code)

lemma text_projection_not_visual: "\<not> contains ''text_projection'' ''visual''"
  by (simp add: contains_def sublist_code)

text \<open>The steps of \<^verbatim>\<open>build_model\<close>, when it returns.\<close>

lemma build_model_Inr:
  assumes "build_model load g sd = Inr (m, sd')"
  obtains image_resolution vision_layers vision_width vision_patch_size tp embed_dim model where
    "infer_vision sd = Inr (image_resolution, vision_layers, vision_width, vision_patch_size)"
    "getitem sd ''text_projection'' = Inr tp"
    "py_index (shape tp) 1 = Inr embed_dim"
    "CLIP_init g embed_dim image_resolution vision_layers vision_width vision_patch_size = Inr model"
    "load model sd' = Inr m"
    "sd' = filter (\<lambda>kv. contains (fst kv) ''visual'') sd"
proof -
  let ?sd1 = "fold (\<lambda>key sd. if has_key sd key then delitem sd key else sd)
                 [''input_resolution'', ''context_length'', ''vocab_size''] sd"
  let ?sd2 = "fold (\<lambda>key sd. if \<not> contains key ''visual'' then delitem sd key else sd)
                 (map fst ?sd1) ?sd1"
  from assms obtain ir vl vw vp tp e model where
    i: "infer_vision sd = Inr (ir, vl, vw, vp)" and tp: "getitem sd ''text_projection'' = Inr tp"
    and e: "py_index (shape tp) 1 = Inr e" and c: "CLIP_init g e ir vl vw vp = Inr model"
    and l: "load model ?sd2 = Inr m" and s: "sd' = ?sd2"
    unfolding build_model_def Let_def
    by (auto simp: seq_Inr_iff split: prod.splits)
  have "?sd2 = filter (\<lambda>kv. contains (fst kv) ''visual'') ?sd1"
    by (simp only: fold_del_not_visual) (auto intro!: filter_cong)
  also have "\<dots> = filter (\<lambda>kv. contains (fst kv) ''visual'') sd"
    using fold_del_present[OF text_keys_not_visual] by simp
  finally have f: "sd' = filter (\<lambda>kv. contains (fst kv) ''visual'') sd" using s by simp
  show thesis
    using that[OF i tp e c _ f] l s by simp
qed







text \<open>The example dictionary is accepted, and what is inferred from it.\<close>

lemma example_infer_vision:
  "infer_vision example_state_dict = Inr (4, Layers_int 1, 64, Some 2)"
  by (simp add: infer_vision_def example_state_dict_def has_key_def getitem_def py_index_def
      zeros_def mk_def startswith_def endswith_def suffix_to_prefix py_round_sqrt_def
      round_sqrt_def eval_nat_numeral Let_def)

lemma example_builds:
  "\<exists>m. build_model (\<lambda>m _. Inr m) (\<lambda>_ _. 0) example_state_dict
         = Inr (m, take 4 example_state_dict)"
proof -
  obtain model where model: "CLIP_init (\<lambda>_ _. 0) 8 4 (Layers_int 1) 64 (Some 2) = Inr model"
    using CLIP_init_vit_ok[of 64 2 "\<lambda>_ _. 0" 8 4 1] by auto
  have tp: "getitem example_state_dict ''text_projection'' = Inr (zeros [8, 8])"
    by (simp add: example_state_dict_def getitem_def)
  have e: "py_index (shape (zeros [8, 8])) 1 = Inr 8"
    by (simp add: py_index_def zeros_def mk_def)
  have sd: "fold (\<lambda>key sd. if \<not> contains key ''visual'' then delitem sd key else sd)
              (map fst (fold (\<lambda>key sd. if has_key sd key then delitem sd key else sd)
                 [''input_resolution'', ''context_length'', ''vocab_size''] example_state_dict))
              (fold (\<lambda>key sd. if has_key sd key then delitem sd key else sd)
                 [''input_resolution'', ''context_length'', ''vocab_size''] example_state_dict)
            = take 4 example_state_dict"
    by (simp add: example_state_dict_def has_key_def delitem_def contains_def sublist_code)
  have "build_model (\<lambda>m _. Inr m) (\<lambda>_ _. 0) example_state_dict
         = Inr (model, take 4 example_state_dict)"
    unfolding build_model_def Let_def
    by (simp only: example_infer_vision seq_Inr prod.case tp e model sd)
  then show ?thesis by blast
qed



text \<open>
  C9. \<^verbatim>\<open>build_model\<close> mutates its argument. When it returns, the caller's dictionary
  holds exactly the entries whose key contains \<^verbatim>\<open>visual\<close>, in their order and with
  their tensors; \<^verbatim>\<open>text_projection\<close>, \<^verbatim>\<open>input_resolution\<close>, \<^verbatim>\<open>context_length\<close> and
  \<^verbatim>\<open>vocab_size\<close> are gone. The embedding width of the model was read from
  \<^verbatim>\<open>text_projection\<close> in the dictionary as it was passed in.
\<close>

theorem build_model_prunes_state_dict:
  assumes "build_model load g sd = Inr (m, sd')"
  shows "sd' = filter (\<lambda>kv. contains (fst kv) ''visual'') sd \<and>
         \<not> has_key sd' ''text_projection'' \<and> \<not> has_key sd' ''input_resolution'' \<and>
         \<not> has_key sd' ''context_length'' \<and> \<not> has_key sd' ''vocab_size'' \<and>
         (\<exists>tp embed_dim image_resolution vision_layers vision_width vision_patch_size model.
            getitem sd ''text_projection'' = Inr tp \<and>
            py_index (shape tp) 1 = Inr embed_dim \<and>
            CLIP_init g embed_dim image_resolution vision_layers vision_width vision_patch_size
              = Inr model \<and>
            load model sd' = Inr m)"
proof -
  from assms obtain ir vl vw vp tp e model where
    tp: "getitem sd ''text_projection'' = Inr tp" "py_index (shape tp) 1 = Inr e"
    and c: "CLIP_init g e ir vl vw vp = Inr model" and l: "load model sd' = Inr m"
    and f: "sd' = filter (\<lambda>kv. contains (fst kv) ''visual'') sd"
    by (rule build_model_Inr)
  have gone: "\<not> has_key sd' k" if "\<not> contains k ''visual''" for k
    using that unfolding f has_key_def by auto
  have "\<not> has_key sd' ''text_projection''" "\<not> has_key sd' ''input_resolution''"
    "\<not> has_key sd' ''context_length''" "\<not> has_key sd' ''vocab_size''"
    using text_keys_not_visual text_projection_not_visual by (simp_all add: gone)
  moreover have "\<exists>tp embed_dim image_resolution vision_layers vision_width vision_patch_size model.
            getitem sd ''text_projection'' = Inr tp \<and>
            py_index (shape tp) 1 = Inr embed_dim \<and>
            CLIP_init g embed_dim image_resolution vision_layers vision_width vision_patch_size
              = Inr model \<and>
            load model sd' = Inr m"
    using tp c l by - (intro exI conjI; assumption)
  ultimately show ?thesis using f by simp
qed

theorem build_model_prunes_state_dict_witness:
  "\<exists>m. build_model (\<lambda>m _. Inr m) (\<lambda>_ _. 0) example_state_dict
          = Inr (m, [(''visual.proj'', zeros [64, 8]),
                     (''visual.conv1.weight'', zeros [64, 3, 2, 2]),
                     (''visual.positional_embedding'', zeros [5, 64]),
                     (''visual.transformer.resblocks.0.attn.in_proj_weight'', zeros [192, 64])])
         \<and> getitem example_state_dict ''text_projection'' = Inr (zeros [8, 8])"
proof -
  from example_builds obtain m where
    m: "build_model (\<lambda>m _. Inr m) (\<lambda>_ _. 0) example_state_dict = Inr (m, take 4 example_state_dict)"
    by blast
  from build_model_prunes_state_dict[OF m]
  have "take 4 example_state_dict = filter (\<lambda>kv. contains (fst kv) ''visual'') example_state_dict"
    by simp
  also have "\<dots> = [(''visual.proj'', zeros [64, 8]),
                     (''visual.conv1.weight'', zeros [64, 3, 2, 2]),
                     (''visual.positional_embedding'', zeros [5, 64]),
                     (''visual.transformer.resblocks.0.attn.in_proj_weight'', zeros [192, 64])]"
    by (simp add: example_state_dict_def contains_def sublist_code)
  finally have "take 4 example_state_dict = [(''visual.proj'', zeros [64, 8]),
                     (''visual.conv1.weight'', zeros [64, 3, 2, 2]),
                     (''visual.positional_embedding'', zeros [5, 64]),
                     (''visual.transformer.resblocks.0.attn.in_proj_weight'', zeros [192, 64])]" .
  moreover have "getitem example_state_dict ''text_projection'' = Inr (zeros [8, 8])"
    by (simp add: example_state_dict_def getitem_def)
  ultimately show ?thesis using m by auto
qed

subsection \<open>The tree after the initialisation loops\<close>

lemma zeroed_iff:
  "zeroed a b \<longleftrightarrow>
     kind b = kind a \<and> attrs b = attrs a \<and>
     (params b = params a \<or> params b = zero_wb (params a)) \<and>
     list_all2 (\<lambda>nc nc'. fst nc' = fst nc \<and> zeroed (snd nc) (snd nc')) (children a) (children b)"
  by (cases a) simp

lemma zeroed_refl: "zeroed a a"
proof (induction a)
  case (Module k a ps cs)
  have "zeroed (snd nc) (snd nc)" if "nc \<in> set cs" for nc
    using Module that by (cases nc) auto
  then have "list_all2 (\<lambda>nc nc'. fst nc' = fst nc \<and> zeroed (snd nc) (snd nc')) cs cs"
    by (simp add: list_all2_same)
  then show ?case by simp
qed

lemma params_zero_linear: "params (zero_linear m) = zero_wb (params m)"
  by (simp add: zero_wb_def zero_linear_def init_constant_def)

lemma zero_wb_idem: "zero_wb (zero_wb ps) = zero_wb ps"
  by (induction ps) (auto simp: zero_wb_def zero_linear_def init_constant_def mk_def)

lemma zeroed_zero_linear: "zeroed a b \<Longrightarrow> zeroed a (zero_linear b)"
proof -
  assume ab: "zeroed a b"
  have s: "kind (zero_linear b) = kind b" "attrs (zero_linear b) = attrs b"
    "children (zero_linear b) = children b"
    using params_only_zero by (simp_all add: params_only_def)
  from ab have "params (zero_linear b) = zero_wb (params a)"
    unfolding params_zero_linear zeroed_iff[of a b] by (auto simp: zero_wb_idem)
  with ab s show ?thesis
    unfolding zeroed_iff[of a b] zeroed_iff[of a "zero_linear b"] by simp
qed

lemma zeroed_update_child:
  assumes "list_all2 (\<lambda>nc nc'. fst nc' = fst nc \<and> zeroed (snd nc) (snd nc')) cs cs'"
    and "\<And>c c'. zeroed c c' \<Longrightarrow> zeroed c (f c')"
  shows "list_all2 (\<lambda>nc nc'. fst nc' = fst nc \<and> zeroed (snd nc) (snd nc')) cs (update_child n f cs')"
  using assms(1)
proof (induction cs cs' rule: list_all2_induct)
  case Nil
  then show ?case by simp
next
  case (Cons x xs y ys)
  obtain n' c' where y: "y = (n', c')" by (cases y)
  with Cons assms(2) show ?case by auto
qed

lemma zeroed_update_at: "zeroed a b \<Longrightarrow> zeroed a (update_at p zero_linear b)"
proof (induction p arbitrary: a b)
  case Nil
  then show ?case by (simp add: zeroed_zero_linear)
next
  case (Cons n p)
  from Cons.prems have
    "list_all2 (\<lambda>nc nc'. fst nc' = fst nc \<and> zeroed (snd nc) (snd nc')) (children a) (children b)"
    unfolding zeroed_iff[of a b] by simp
  then have "list_all2 (\<lambda>nc nc'. fst nc' = fst nc \<and> zeroed (snd nc) (snd nc')) (children a)
               (update_child n (update_at p zero_linear) (children b))"
    by (rule zeroed_update_child) (rule Cons.IH)
  with Cons.prems show ?case
    unfolding zeroed_iff[of a b] zeroed_iff[of a "update_at (n # p) zero_linear b"] by simp
qed

lemma zeroed_initialize_adapters: "zeroed a s \<Longrightarrow> zeroed a (initialize_adapters tag s)"
  by (rule initialize_adapters_invariant[where P = "zeroed a"]) (simp_all add: zeroed_update_at del: update_at.simps)

lemma zeroed_map_of:
  assumes "list_all2 (\<lambda>nc nc'. fst nc' = fst nc \<and> zeroed (snd nc) (snd nc')) cs cs'"
    and "map_of cs n = Some c"
  shows "\<exists>c'. map_of cs' n = Some c' \<and> zeroed c c'"
  using assms
proof (induction cs cs' rule: list_all2_induct)
  case Nil
  then show ?case by simp
next
  case (Cons x xs y ys)
  obtain n0 c0 where x: "x = (n0, c0)" by (cases x)
  obtain n1 c1 where y: "y = (n1, c1)" by (cases y)
  from Cons x y show ?case by (cases "n0 = n") auto
qed

lemma zeroed_child:
  "zeroed a b \<Longrightarrow> map_of (children a) n = Some c \<Longrightarrow> \<exists>c'. map_of (children b) n = Some c' \<and> zeroed c c'"
proof -
  assume "zeroed a b" and c: "map_of (children a) n = Some c"
  then have "list_all2 (\<lambda>nc nc'. fst nc' = fst nc \<and> zeroed (snd nc) (snd nc'))
               (children a) (children b)"
    unfolding zeroed_iff[of a b] by simp
  then show ?thesis using c by (rule zeroed_map_of)
qed

lemma zeroed_node_at:
  "zeroed a b \<Longrightarrow> node_at q a = Some n \<Longrightarrow> \<exists>n'. node_at q b = Some n' \<and> zeroed n n'"
proof (induction q arbitrary: a b)
  case Nil
  then show ?case by simp
next
  case (Cons x q)
  from Cons.prems obtain c where c: "map_of (children a) x = Some c" and n: "node_at q c = Some n"
    by (auto split: option.splits)
  from zeroed_child[OF Cons.prems(1) c] obtain c' where
    c': "map_of (children b) x = Some c'" and z: "zeroed c c'" by blast
  from Cons.IH[OF z n] c' show ?case by simp
qed











lemma VisionTransformer_init_zeroed:
  assumes "VisionTransformer_init g r p w l h d = Inr vit"
  obtains tr v0 where
    "Transformer_init (sub g ''transformer'') w l h = Inr tr"
    "kind v0 = VisionTransformer"
    "children v0 = [(''conv1'', Conv2d_init (sub g ''conv1'') 3 w p p 0),
             (''ln_pre'', LayerNorm_init w),
             (''transformer'', tr),
             (''ln_post'', LayerNorm_init w),
             (''ln_post_cls'', LayerNorm_init w)]"
    "params v0 = [(''class_embedding'', drawn g ''class_embedding'' [w]),
             (''positional_embedding'',
                drawn g ''positional_embedding'' [(r div p) ^ 2 + 1, w]),
             (''proj'', drawn g ''proj'' [w, d]),
             (''ada_weight'', Parameter (mk [2] (\<lambda>_. 1 / 2)))]"
    "vit = initialize_adapters ''MLP_Adapter'' (initialize_adapters ''S_Adapter'' v0)"
    "zeroed v0 (initialize_adapters ''S_Adapter'' v0)"
    "zeroed v0 vit"
    "w \<noteq> 0" "p \<noteq> 0"
proof -
  from assms obtain tr v0 where 1: "Transformer_init (sub g ''transformer'') w l h = Inr tr"
    "kind v0 = VisionTransformer"
    "children v0 = [(''conv1'', Conv2d_init (sub g ''conv1'') 3 w p p 0),
             (''ln_pre'', LayerNorm_init w),
             (''transformer'', tr),
             (''ln_post'', LayerNorm_init w),
             (''ln_post_cls'', LayerNorm_init w)]"
    "params v0 = [(''class_embedding'', drawn g ''class_embedding'' [w]),
             (''positional_embedding'',
                drawn g ''positional_embedding'' [(r div p) ^ 2 + 1, w]),
             (''proj'', drawn g ''proj'' [w, d]),
             (''ada_weight'', Parameter (mk [2] (\<lambda>_. 1 / 2)))]"
    "vit = initialize_adapters ''MLP_Adapter'' (initialize_adapters ''S_Adapter'' v0)"
    "w \<noteq> 0" "p \<noteq> 0"
    by (rule VisionTransformer_init_Inr)
  have z1: "zeroed v0 (initialize_adapters ''S_Adapter'' v0)"
    by (rule zeroed_initialize_adapters) (rule zeroed_refl)
  then have z2: "zeroed v0 vit"
    unfolding 1(5) by (rule zeroed_initialize_adapters)
  show thesis by (rule that[OF 1(1-5) z1 z2 1(6,7)])
qed



subsection \<open>Tensors\<close>

lemma shape_mk [simp]: "shape (mk s f) = s"
  by (simp add: mk_def)

lemma entry_mk: "entry (mk s f) idx = (if valid_index s idx then f idx else 0)"
  by (simp add: mk_def)

lemma mk_cong: "(\<And>idx. valid_index s idx \<Longrightarrow> f idx = g idx) \<Longrightarrow> mk s f = mk s g"
  by (auto simp: mk_def)

lemma canonical_mk [simp]: "canonical (mk s f)"
  by (auto simp: canonical_def mk_def)

lemma canonical_zeros [simp]: "canonical (zeros s)"
  by (simp add: zeros_def)


lemma shape_zeros [simp]: "shape (zeros s) = s"
  by (simp add: zeros_def)

lemma entry_zeros [simp]: "entry (zeros s) idx = 0"
  by (simp add: zeros_def entry_mk)

lemma valid_index_length: "valid_index s idx \<Longrightarrow> length idx = length s"
  by (simp add: valid_index_def list_all2_lengthD)

lemma valid_index_Cons [simp]:
  "valid_index (d # s) (i # idx) \<longleftrightarrow> i < d \<and> valid_index s idx"
  by (simp add: valid_index_def)

lemma valid_index_Nil [simp]: "valid_index [] idx \<longleftrightarrow> idx = []"
  by (simp add: valid_index_def)

lemma valid_index_Cons_Nil [simp]: "\<not> valid_index (d # s) []"
  by (simp add: valid_index_def)

subsection \<open>Broadcasting\<close>


lemma broadcast_rev_same: "broadcast_rev xs xs = Some xs"
  by (induction xs) (simp_all add: bdim_def)



lemma broadcast_shapes_same [simp]: "broadcast_shapes s s = Some s"
  by (simp add: broadcast_shapes_def broadcast_rev_same)

lemma bidx_same: "valid_index s idx \<Longrightarrow> bidx s idx = idx"
proof -
  assume v: "valid_index s idx"
  then have "list_all2 (\<lambda>i d. i < d) idx s" by (simp add: valid_index_def)
  then have "map2 (\<lambda>d i. if d = 1 then 0 else i) s idx = idx"
    by (induction idx s rule: list_all2_induct) auto
  with valid_index_length[OF v] show ?thesis by (simp add: bidx_def)
qed


lemma add_same_shape:
  "shape a = shape b \<Longrightarrow>
   add a b = Inr (mk (shape a) (\<lambda>idx. entry a idx + entry b idx))"
  by (auto simp: add_def pointwise2_def bidx_same intro!: mk_cong)


subsection \<open>Linear layers and adapters\<close>









lemma zeroed_kind: "zeroed a b \<Longrightarrow> kind b = kind a"
  unfolding zeroed_iff[of a b] by simp

lemma zeroed_attrs: "zeroed a b \<Longrightarrow> attrs b = attrs a"
  unfolding zeroed_iff[of a b] by simp

lemma shape_pointwise [simp]: "shape (pointwise f a) = shape a"
  by (simp add: pointwise_def)


subsection \<open>Shapes through attention and normalisation\<close>







subsection \<open>The blocks of a constructed VisionTransformer\<close>

lemma VisionTransformer_init_block:
  assumes vit: "VisionTransformer_init g r p w l h d = Inr vit" and i: "i < l"
  obtains rb blk where
    "ResidualAttentionBlock_init (sub (sub (sub g ''transformer'') ''resblocks'') (str_nat i))
       w h True = Inr rb"
    "node_at [''transformer'', ''resblocks'', str_nat i] vit = Some blk"
    "zeroed rb blk"
proof -
  from vit obtain tr v0 where tr: "Transformer_init (sub g ''transformer'') w l h = Inr tr"
    and c: "children v0 = [(''conv1'', Conv2d_init (sub g ''conv1'') 3 w p p 0),
             (''ln_pre'', LayerNorm_init w),
             (''transformer'', tr),
             (''ln_post'', LayerNorm_init w),
             (''ln_post_cls'', LayerNorm_init w)]"
    and z: "zeroed v0 vit"
    by (rule VisionTransformer_init_zeroed)
  from tr i obtain rb where
    rb: "ResidualAttentionBlock_init (sub (sub (sub g ''transformer'') ''resblocks'') (str_nat i))
           w h True = Inr rb"
    and n: "node_at [''resblocks'', str_nat i] tr = Some rb"
    by (rule Transformer_init_blocks)
  from n c have "node_at [''transformer'', ''resblocks'', str_nat i] v0 = Some rb" by simp
  from zeroed_node_at[OF z this] obtain blk where
    "node_at [''transformer'', ''resblocks'', str_nat i] vit = Some blk" "zeroed rb blk" by blast
  with rb show thesis using that by blast
qed





subsection \<open>Parameters after the initialisation loops\<close>

lemma map_of_zero_wb:
  "map_of (zero_wb ps) n =
     map_option (\<lambda>p. if n = ''weight'' \<or> n = ''bias''
                      then p\<lparr>data := mk (shape (data p)) (\<lambda>_. 0)\<rparr> else p) (map_of ps n)"
  by (induction ps) (auto simp: zero_wb_def zero_linear_def init_constant_def)

lemma zeroed_the_param_other:
  assumes "zeroed a b" "n \<noteq> ''weight''" "n \<noteq> ''bias''"
  shows "the_param b n = the_param a n"
proof -
  from assms(1) have "params b = params a \<or> params b = zero_wb (params a)"
    unfolding zeroed_iff[of a b] by simp
  then show ?thesis using assms(2,3)
    by (auto simp: the_param_def map_of_zero_wb split: option.splits)
qed

lemma zeroed_the_param:
  assumes "zeroed a b" "the_param a n = Inr t"
  shows "\<exists>t'. the_param b n = Inr t' \<and> shape t' = shape t \<and> (t' = t \<or> t' = zeros (shape t))"
proof -
  from assms(1) have "params b = params a \<or> params b = zero_wb (params a)"
    unfolding zeroed_iff[of a b] by simp
  then show ?thesis using assms(2)
    by (auto simp: the_param_def map_of_zero_wb zeros_def split: option.splits)
qed

lemma zeroed_the_child:
  assumes "zeroed a b" "the_child a n = Inr c"
  shows "\<exists>c'. the_child b n = Inr c' \<and> zeroed c c'"
proof -
  from assms(2) have "map_of (children a) n = Some c"
    by (auto simp: the_child_def split: option.splits)
  from zeroed_child[OF assms(1) this] show ?thesis by (auto simp: the_child_def)
qed

text \<open>The keys (and values) of a residual block's attention.\<close>

lemma repeat_prefix:
  "repeat [1, N, 1] (mk [8, 1, w] f) = Inr (mk [8, N, w] (\<lambda>idx. f [idx ! 0, 0, idx ! 2]))"
proof -
  have "mk [8, N, w] (\<lambda>idx. entry (mk [8, 1, w] f)
            (drop 0 (map2 (\<lambda>i d. i mod d) idx [8, 1, w])))
        = mk [8, N, w] (\<lambda>idx. f [idx ! 0, 0, idx ! 2])"
  proof (rule mk_cong)
    fix idx assume "valid_index [8, N, w] idx"
    then obtain a b c where idx: "idx = [a, b, c]" "a < 8" "b < N" "c < w"
      by (auto simp: valid_index_def list_all2_Cons2)
    then show "entry (mk [8, 1, w] f) (drop 0 (map2 (\<lambda>i d. i mod d) idx [8, 1, w]))
       = f [idx ! 0, 0, idx ! 2]"
      by (simp add: entry_mk)
  qed
  then show ?thesis by (simp add: repeat_def Let_def)
qed

text \<open>
  C8. In every residual block of a constructed VisionTransformer, on an input \<open>x\<close> of
  shape \<open>(L, N, width)\<close>, \<^verbatim>\<open>attention\<close> is the block's MultiheadAttention applied to the
  query \<open>x\<close> (\<open>L\<close> tokens) and to a key and a value of shape \<open>(L + 8, N, width)\<close>: rows
  \<open>0 .. L - 1\<close> are the tokens of \<open>x\<close>, and row \<open>L + j\<close> is, for every sample of the batch,
  row \<open>j\<close> of the parameter \<^verbatim>\<open>prefix_embedding_k\<close> (for the key) or
  \<^verbatim>\<open>prefix_embedding_v\<close> (for the value), each of shape \<open>(8, 1, width)\<close>.
\<close>

theorem attention_over_prefixed_keys:
  assumes vit: "VisionTransformer_init g r p w l h d = Inr vit" and i: "i < l"
    and x: "shape x = [L, N, w]"
  shows "\<exists>blk attn pk pv key val.
     node_at [''transformer'', ''resblocks'', str_nat i] vit = Some blk \<and>
     the_child blk ''attn'' = Inr attn \<and> kind attn = MultiheadAttention \<and>
     the_param blk ''prefix_embedding_k'' = Inr pk \<and> shape pk = [8, 1, w] \<and>
     the_param blk ''prefix_embedding_v'' = Inr pv \<and> shape pv = [8, 1, w] \<and>
     ResidualAttentionBlock_attention blk x = MultiheadAttention_forward attn x key val \<and>
     shape key = [L + 8, N, w] \<and> shape val = [L + 8, N, w] \<and>
     (\<forall>s n e. s < L + 8 \<and> n < N \<and> e < w \<longrightarrow>
        entry key [s, n, e] = (if s < L then entry x [s, n, e] else entry pk [s - L, 0, e]) \<and>
        entry val [s, n, e] = (if s < L then entry x [s, n, e] else entry pv [s - L, 0, e]))"
proof -
  let ?g = "sub (sub (sub g ''transformer'') ''resblocks'') (str_nat i)"
  from vit i obtain rb blk where
    rb: "ResidualAttentionBlock_init ?g w h True = Inr rb"
    and blk: "node_at [''transformer'', ''resblocks'', str_nat i] vit = Some blk"
    and z: "zeroed rb blk"
    by (rule VisionTransformer_init_block)
  from rb obtain attn0 where attn0: "MultiheadAttention_init (sub ?g ''attn'') w h = Inr attn0"
    and rb_def: "rb = Module ResidualAttentionBlock
       [(''attn_mask'', None_attr), (''prefix_length'', Int_attr 8),
        (''checkpointing'', Bool_attr True)]
       [(''prefix_embedding_k'', drawn ?g ''prefix_embedding_k'' [8, 1, w]),
        (''prefix_embedding_v'', drawn ?g ''prefix_embedding_v'' [8, 1, w])]
       [(''attn'', attn0),
        (''ln_1'', LayerNorm_init w),
        (''mlp'', Sequential_init
           [(''c_fc'', Linear_init (sub (sub ?g ''mlp'') ''c_fc'') w (w * 4)),
            (''gelu'', plain QuickGELU),
            (''c_proj'', Linear_init (sub (sub ?g ''mlp'') ''c_proj'') (w * 4) w)]),
        (''ln_2'', LayerNorm_init w),
        (''S_Adapter'', Adapter_init (sub ?g ''S_Adapter'') w False),
        (''MLP_Adapter'', Adapter_init (sub ?g ''MLP_Adapter'') w False)]"
    unfolding ResidualAttentionBlock_init_def by (auto simp: seq_Inr_iff split: if_splits)
  define fk where "fk = ?g [''prefix_embedding_k'']"
  define fv where "fv = ?g [''prefix_embedding_v'']"
  have m: "map_of (attrs blk) ''attn_mask'' = Some None_attr"
    using zeroed_attrs[OF z] by (simp add: rb_def)
  have "the_param rb ''prefix_embedding_k'' = Inr (mk [8, 1, w] fk)"
    "the_param rb ''prefix_embedding_v'' = Inr (mk [8, 1, w] fv)"
    by (simp_all add: rb_def the_param_def drawn_def Parameter_def fk_def fv_def)
  then have pk: "the_param blk ''prefix_embedding_k'' = Inr (mk [8, 1, w] fk)"
    and pv: "the_param blk ''prefix_embedding_v'' = Inr (mk [8, 1, w] fv)"
    using zeroed_the_param_other[OF z] by simp_all
  have "the_child rb ''attn'' = Inr attn0" by (simp add: rb_def the_child_def)
  from zeroed_the_child[OF z this] obtain attn where
    attn: "the_child blk ''attn'' = Inr attn" and za: "zeroed attn0 attn" by blast
  have ka: "kind attn = MultiheadAttention"
    using zeroed_kind[OF za] attn0 by (auto simp: MultiheadAttention_init_def split: if_splits)
  define key where "key = mk [L + 8, N, w]
      (\<lambda>idx. if hd idx < L then entry x idx
             else entry (mk [8, N, w] (\<lambda>idx. fk [idx ! 0, 0, idx ! 2])) ((hd idx - L) # tl idx))"
  define val where "val = mk [L + 8, N, w]
      (\<lambda>idx. if hd idx < L then entry x idx
             else entry (mk [8, N, w] (\<lambda>idx. fv [idx ! 0, 0, idx ! 2])) ((hd idx - L) # tl idx))"
  have n: "py_index (shape x) 1 = Inr N" using x by (simp add: py_index_def)
  have ck: "concat0 x (mk [8, N, w] (\<lambda>idx. fk [idx ! 0, 0, idx ! 2])) = Inr key"
    and cv: "concat0 x (mk [8, N, w] (\<lambda>idx. fv [idx ! 0, 0, idx ! 2])) = Inr val"
    using x by (simp_all add: concat0_def Let_def key_def val_def)
  have att: "ResidualAttentionBlock_attention blk x = MultiheadAttention_forward attn x key val"
    by (simp add: ResidualAttentionBlock_attention_def m attn pk pv n repeat_prefix ck cv
        del: One_nat_def)
  have e: "entry key [s, n, e] = (if s < L then entry x [s, n, e] else entry (mk [8, 1, w] fk) [s - L, 0, e])
     \<and> entry val [s, n, e] = (if s < L then entry x [s, n, e] else entry (mk [8, 1, w] fv) [s - L, 0, e])"
    if "s < L + 8" "n < N" "e < w" for s n e
    using that by (auto simp: key_def val_def entry_mk)
  show ?thesis
    apply (rule exI[of _ blk], rule exI[of _ attn], rule exI[of _ "mk [8, 1, w] fk"],
        rule exI[of _ "mk [8, 1, w] fv"], rule exI[of _ key], rule exI[of _ val])
    using blk attn ka pk pv att e by (simp add: key_def val_def)
qed

theorem attention_over_prefixed_keys_witness:
  "\<exists>vit blk attn pk pv key val.
     VisionTransformer_init (\<lambda>_ _. 1) 4 2 64 1 1 8 = Inr vit \<and>
     node_at [''transformer'', ''resblocks'', str_nat 0] vit = Some blk \<and>
     the_child blk ''attn'' = Inr attn \<and>
     the_param blk ''prefix_embedding_k'' = Inr pk \<and>
     the_param blk ''prefix_embedding_v'' = Inr pv \<and>
     ResidualAttentionBlock_attention blk (ones [5, 3, 64])
       = MultiheadAttention_forward attn (ones [5, 3, 64]) key val \<and>
     shape key = [13, 3, 64] \<and> shape val = [13, 3, 64] \<and>
     entry key [4, 2, 63] = 1 \<and> entry key [12, 2, 63] = entry pk [7, 0, 63] \<and>
     entry val [0, 0, 0] = 1 \<and> entry val [5, 1, 7] = entry pv [0, 0, 7]"
proof -
  obtain vit where vit: "VisionTransformer_init (\<lambda>_ _. 1) 4 2 64 1 1 8 = Inr vit"
    using VisionTransformer_init_ok[of 64 2 1 "\<lambda>_ _. 1" 4 1 8] by auto
  have s: "shape (ones [5, 3, 64]) = [5, 3, 64]" by (simp add: ones_def)
  from attention_over_prefixed_keys[OF vit _ s, of 0] obtain blk attn pk pv key val where
    b: "node_at [''transformer'', ''resblocks'', str_nat 0] vit = Some blk"
      "the_child blk ''attn'' = Inr attn"
      "the_param blk ''prefix_embedding_k'' = Inr pk"
      "the_param blk ''prefix_embedding_v'' = Inr pv"
      "ResidualAttentionBlock_attention blk (ones [5, 3, 64])
         = MultiheadAttention_forward attn (ones [5, 3, 64]) key val"
      "shape key = [5 + 8, 3, 64]" "shape val = [5 + 8, 3, 64]"
    and e: "\<And>s n e. s < 5 + 8 \<and> n < 3 \<and> e < 64 \<Longrightarrow>
        entry key [s, n, e] = (if s < 5 then entry (ones [5, 3, 64]) [s, n, e] else entry pk [s - 5, 0, e]) \<and>
        entry val [s, n, e] = (if s < 5 then entry (ones [5, 3, 64]) [s, n, e] else entry pv [s - 5, 0, e])"
    by auto
  from e[of 4 2 63] e[of 12 2 63] e[of 0 0 0] e[of 5 1 7]
  have "entry key [4, 2, 63] = 1 \<and> entry key [12, 2, 63] = entry pk [7, 0, 63] \<and>
     entry val [0, 0, 0] = 1 \<and> entry val [5, 1, 7] = entry pv [0, 0, 7]"
    by (simp add: ones_def entry_mk)
  with vit b show ?thesis by auto
qed

end
